theory Spec2Isabelle
  imports Main "HOL-Library.Word"
begin

section \<open>Data model (main.go, lines 21-33, and the SDK values the handlers touch)\<close>

text \<open>
  A Go \<open>error\<close> is modelled by its message; \<open>fmt.Errorf("...: %w", err)\<close> puts the
  message of the wrapped error after the prefix.
\<close>

type_synonym error = string

definition defaultEmailAddress :: string where
  "defaultEmailAddress = ''notifications.otp@evacrane.com''"

record OTPRequest =
  Identifier :: string
  Method :: string

record OTPVerifyRequest =
  Identifier :: string
  OTP :: string

text \<open>The two fields of \<open>events.APIGatewayProxyRequest\<close> that the handlers read.\<close>

record APIGatewayProxyRequest =
  Resource :: string
  Body :: string

record APIGatewayProxyResponse =
  StatusCode :: int
  Body :: string
  Headers :: "(string \<times> string) list"

text \<open>
  \<open>dynamodb.AttributeValue\<close> is a struct of pointer fields; the program uses \<open>S\<close> and
  \<open>N\<close>. A nil pointer is \<open>None\<close>. An item is a Go map from attribute names to
  attribute values, kept as an association list.
\<close>

record AttributeValue =
  S :: "string option"
  N :: "string option"

type_synonym item = "(string \<times> AttributeValue) list"

text \<open>
  A handler returns a response together with an error, or panics
  (\<open>session.Must\<close>, a nil dereference).
\<close>

datatype 'a go_result = Panic string | Return 'a

type_synonym handler_result = "(APIGatewayProxyResponse \<times> error option) go_result"

section \<open>The outside world\<close>

text \<open>
  Calls that leave the process, in the order they are made. A call is logged when it is
  attempted, whether or not it succeeds.
\<close>

datatype call =
    RandSeed
  | RandIntn int
  | PutItem string item
  | Query string string
  | Publish string string
  | SendEmail string string string string

text \<open>
  \<open>table\<close> is the content of the DynamoDB table \<open>OTP\<close>, oldest write first;
  \<open>calls\<close> is the log of external calls.
\<close>

record world =
  table :: "item list"
  calls :: "call list"

text \<open>
  What the libraries and services answer during one invocation. They are not part of the
  repository, so they are parameters of the model:
  \<^item> \<open>Unmarshal_OTPRequest\<close>, \<open>Unmarshal_OTPVerifyRequest\<close>: \<open>json.Unmarshal\<close> of the
    body into the respective struct; \<open>Inl\<close> carries the error;
  \<^item> \<open>Intn\<close>: the value that \<open>rand.Intn(n)\<close> returns;
  \<^item> \<open>NewSession_err\<close>: the error of \<open>session.NewSession()\<close>, if any;
  \<^item> \<open>Now_Unix\<close>: \<open>time.Now().Unix()\<close>, an \<open>int64\<close>;
  \<^item> \<open>PutItem_err\<close>, \<open>Query_err\<close>, \<open>Publish_err\<close>, \<open>SendEmail_err\<close>: the error
    of the respective service call, if any.
\<close>

record env =
  Unmarshal_OTPRequest :: "string \<Rightarrow> error + OTPRequest"
  Unmarshal_OTPVerifyRequest :: "string \<Rightarrow> error + OTPVerifyRequest"
  Intn :: "int \<Rightarrow> int"
  NewSession_err :: "error option"
  Now_Unix :: "64 word"
  PutItem_err :: "error option"
  Query_err :: "error option"
  Publish_err :: "error option"
  SendEmail_err :: "error option"

definition log_call :: "call \<Rightarrow> world \<Rightarrow> world" where
  "log_call c w = w\<lparr>calls := calls w @ [c]\<rparr>"

section \<open>Decimal text: \<open>fmt.Sprintf("%06d", _)\<close>, \<open>strconv.FormatInt(_, 10)\<close>,
  \<open>strconv.ParseInt(_, 10, 64)\<close>\<close>

definition digit_char :: "nat \<Rightarrow> char" where
  "digit_char d = char_of (48 + d)"

definition is_digit :: "char \<Rightarrow> bool" where
  "is_digit c = (48 \<le> (of_char c :: nat) \<and> (of_char c :: nat) \<le> 57)"

definition digit_val :: "char \<Rightarrow> nat" where
  "digit_val c = of_char c - 48"

fun digits10 :: "nat \<Rightarrow> string" where
  "digits10 n = (if n < 10 then [digit_char n] else digits10 (n div 10) @ [digit_char (n mod 10)])"

declare digits10.simps [simp del]

text \<open>The number that a string of decimal digits denotes, leading zeros allowed.\<close>

definition decimal_value :: "string \<Rightarrow> nat" where
  "decimal_value s = foldl (\<lambda>n c. n * 10 + digit_val c) 0 s"

text \<open>
  The verb \<open>%06d\<close>: width 6, padded with zeros; the sign of a negative number takes one
  of the six places and stands before the zeros; a number with more digits is printed
  in full.
\<close>

definition Sprintf_06d :: "int \<Rightarrow> string" where
  "Sprintf_06d i =
     (if i < 0
      then CHR ''-'' # replicate (5 - length (digits10 (nat (- i)))) CHR ''0'' @ digits10 (nat (- i))
      else replicate (6 - length (digits10 (nat i))) CHR ''0'' @ digits10 (nat i))"

definition FormatInt :: "64 word \<Rightarrow> string" where
  "FormatInt i =
     (if sint i < 0 then CHR ''-'' # digits10 (nat (- sint i)) else digits10 (nat (sint i)))"

text \<open>
  The two parsers below follow the Go standard library (package \<open>strconv\<close>), which is
  not part of the repository. \<open>strconv.ParseUint(s, 10, 64)\<close> reads the bytes from the left. A byte that is not a
  decimal digit ends it with \<open>ErrSyntax\<close> and the value 0; a value beyond
  \<open>2^64 - 1\<close> ends it with \<open>ErrRange\<close> and the value \<open>2^64 - 1\<close>, before any later
  byte is looked at.
\<close>

datatype NumError = ErrSyntax | ErrRange

definition maxUint64 :: nat where
  "maxUint64 = 2 ^ 64 - 1"

fun ParseUint_loop :: "nat \<Rightarrow> string \<Rightarrow> nat \<times> NumError option" where
  "ParseUint_loop n [] = (n, None)"
| "ParseUint_loop n (c # cs) =
     (if \<not> is_digit c then (0, Some ErrSyntax)
      else if n \<ge> maxUint64 div 10 + 1 then (maxUint64, Some ErrRange)
      else if n * 10 + digit_val c > maxUint64 then (maxUint64, Some ErrRange)
      else ParseUint_loop (n * 10 + digit_val c) cs)"

definition ParseUint :: "string \<Rightarrow> nat \<times> NumError option" where
  "ParseUint s = (if s = [] then (0, Some ErrSyntax) else ParseUint_loop 0 s)"

text \<open>
  \<open>strconv.ParseInt(s, 10, 64)\<close>: an optional sign, then \<open>ParseUint\<close>. A syntax error
  gives 0; a magnitude that does not fit gives the largest \<open>int64\<close> of that sign, with
  \<open>ErrRange\<close>.
\<close>

definition ParseInt :: "string \<Rightarrow> 64 word \<times> NumError option" where
  "ParseInt s =
     (if s = [] then (0, Some ErrSyntax)
      else
        let neg = (hd s = CHR ''-'');
            s' = (if hd s = CHR ''+'' \<or> hd s = CHR ''-'' then tl s else s);
            (un, err) = ParseUint s'
        in if err = Some ErrSyntax then (0, Some ErrSyntax)
           else if \<not> neg \<and> un \<ge> 2 ^ 63 then (2 ^ 63 - 1, Some ErrRange)
           else if neg \<and> un > 2 ^ 63 then (- (2 ^ 63), Some ErrRange)
           else (if neg then - of_nat un else of_nat un, None))"

section \<open>The OTP store (DynamoDB table \<open>OTP\<close>)\<close>

text \<open>
  Modelled from the spec: the key schema of the table \<open>OTP\<close> is not among the sources.
  Spec 3 has \<open>createdAt\<close> an integer, and spec 4.2 orders the records of an identifier
  by it. \<open>N_value\<close> is the integer that the text of a number attribute denotes (an
  optional minus sign, then decimal digits); \<open>sortKey\<close> is that integer for the
  \<open>CreatedAt\<close> of an item. An item whose \<open>CreatedAt\<close> is missing or is not such an
  integer lies outside the data model of the spec; it has no key and ranks below every
  item that has one.
\<close>

definition decimal_digits :: "string \<Rightarrow> nat option" where
  "decimal_digits s =
     (if s \<noteq> [] \<and> list_all is_digit s then Some (decimal_value s) else None)"

definition N_value :: "string \<Rightarrow> int option" where
  "N_value s =
     (case s of
        [] \<Rightarrow> None
      | c # cs \<Rightarrow>
          if c = CHR ''-'' then map_option (\<lambda>n. - int n) (decimal_digits cs)
          else map_option int (decimal_digits s))"

definition item_matches :: "string \<Rightarrow> item \<Rightarrow> bool" where
  "item_matches ident it =
     (case map_of it ''Identifier'' of None \<Rightarrow> False | Some av \<Rightarrow> S av = Some ident)"

definition sortKey :: "item \<Rightarrow> int option" where
  "sortKey it =
     (case map_of it ''CreatedAt'' of
        None \<Rightarrow> None
      | Some av \<Rightarrow> (case N av of None \<Rightarrow> None | Some s \<Rightarrow> N_value s))"

fun key_le :: "int option \<Rightarrow> int option \<Rightarrow> bool" where
  "key_le None _ = True"
| "key_le (Some a) None = False"
| "key_le (Some a) (Some b) = (a \<le> b)"

text \<open>
  Modelled from the spec: the service that answers \<open>Query\<close> is not among the sources.
  Spec 4.2, \<open>lookupLatest\<close>: the record with the greatest \<open>createdAt\<close> for the
  identifier, or nothing if there is none; several records may exist per identifier. The
  table is given oldest write first. The spec leaves ties between equal \<open>createdAt\<close> to
  the store; here the last one written is taken.
\<close>

fun lookupLatest :: "item list \<Rightarrow> string \<Rightarrow> item option" where
  "lookupLatest [] ident = None"
| "lookupLatest (it # rest) ident =
     (case lookupLatest rest ident of
        None \<Rightarrow> if item_matches ident it then Some it else None
      | Some b \<Rightarrow>
          if item_matches ident it \<and> \<not> key_le (sortKey it) (sortKey b) then Some it
          else Some b)"

text \<open>
  Modelled from the spec: the service that answers \<open>PutItem\<close> is not among the sources.
  Spec 4.2, \<open>insert\<close>: appends a new record, or fails with a storage error when the
  backing store is unreachable or rejects the write; then nothing is written. This is
  \<open>dynamoClient.PutItem\<close> on the table \<open>OTP\<close> (main.go, lines 62-69).
\<close>

definition dynamodb_PutItem :: "env \<Rightarrow> world \<Rightarrow> item \<Rightarrow> error option \<times> world" where
  "dynamodb_PutItem e w it =
     (let w' = log_call (PutItem ''OTP'' it) w
      in case PutItem_err e of
           Some err \<Rightarrow> (Some err, w')
         | None \<Rightarrow> (None, w'\<lparr>table := table w' @ [it]\<rparr>))"

text \<open>
  Modelled from the spec: spec 4.2 lets \<open>insert\<close> fail when the backing store rejects
  the write, and the store, which is not among the sources, is DynamoDB. \<open>Identifier\<close>
  is the partition key of the table \<open>OTP\<close>: it is the attribute of the key condition of
  the query (main.go, line 122). DynamoDB refuses a put whose key attribute is the empty
  string. \<open>answers_as_DynamoDB e it\<close> says that the answer to \<open>PutItem\<close> in the
  invocation \<open>e\<close> respects this for the item \<open>it\<close>: if the partition key of \<open>it\<close> is
  the empty string, the call returned an error.
\<close>

definition empty_partition_key :: "item \<Rightarrow> bool" where
  "empty_partition_key it =
     (case map_of it ''Identifier'' of None \<Rightarrow> False | Some av \<Rightarrow> S av = Some [])"

definition answers_as_DynamoDB :: "env \<Rightarrow> item \<Rightarrow> bool" where
  "answers_as_DynamoDB e it = (empty_partition_key it \<longrightarrow> PutItem_err e \<noteq> None)"

text \<open>
  Modelled from the spec: \<open>dynamoClient.Query\<close> on the table \<open>OTP\<close> (main.go, lines
  120-128) with the key condition \<open>Identifier = :id\<close>, \<open>ScanIndexForward = false\<close> and
  \<open>Limit = 1\<close> is \<open>lookupLatest\<close> of spec 4.2: at most one item, the newest of the
  identifier, or a storage error.
\<close>

definition dynamodb_Query :: "env \<Rightarrow> world \<Rightarrow> string \<Rightarrow> (error + item list) \<times> world" where
  "dynamodb_Query e w ident =
     (let w' = log_call (Query ''OTP'' ident) w
      in case Query_err e of
           Some err \<Rightarrow> (Inl err, w')
         | None \<Rightarrow>
             (Inr (case lookupLatest (table w) ident of None \<Rightarrow> [] | Some it \<Rightarrow> [it]), w'))"

section \<open>Notification services\<close>

definition sns_Publish :: "env \<Rightarrow> world \<Rightarrow> string \<Rightarrow> string \<Rightarrow> error option \<times> world" where
  "sns_Publish e w message phoneNumber =
     (Publish_err e, log_call (Publish message phoneNumber) w)"

definition ses_SendEmail ::
  "env \<Rightarrow> world \<Rightarrow> string \<Rightarrow> string \<Rightarrow> string \<Rightarrow> string \<Rightarrow> error option \<times> world" where
  "ses_SendEmail e w source toAddress subject bodyText =
     (SendEmail_err e, log_call (SendEmail source toAddress subject bodyText) w)"

section \<open>The handlers (main.go)\<close>

definition createResponse :: "int \<Rightarrow> string \<Rightarrow> APIGatewayProxyResponse" where
  "createResponse statusCode body =
     \<lparr>StatusCode = statusCode, Body = body,
      Headers = [(''Content-Type'', ''application/json'')]\<rparr>"

definition generateOTP :: "env \<Rightarrow> world \<Rightarrow> string \<times> world" where
  "generateOTP e w = (Sprintf_06d (Intn e 1000000), log_call (RandIntn 1000000) w)"

text \<open>The older file (part_000, lines 30-33) seeds the generator first.\<close>

definition generateOTP_part_000 :: "env \<Rightarrow> world \<Rightarrow> string \<times> world" where
  "generateOTP_part_000 e w =
     (let w1 = log_call RandSeed w
      in (Sprintf_06d (Intn e 1000000), log_call (RandIntn 1000000) w1))"

text \<open>
  The item literal of \<open>PutItemInput\<close> (main.go, lines 64-68), for an identifier, the
  value of \<open>time.Now().Unix()\<close> and an OTP.
\<close>

definition otp_item :: "string \<Rightarrow> 64 word \<Rightarrow> string \<Rightarrow> item" where
  "otp_item ident now otp =
     [(''Identifier'', \<lparr>S = Some ident, N = None\<rparr>),
      (''CreatedAt'', \<lparr>S = None, N = Some (FormatInt now)\<rparr>),
      (''OTP'', \<lparr>S = Some otp, N = None\<rparr>)]"

definition sendOTP :: "env \<Rightarrow> world \<Rightarrow> APIGatewayProxyRequest \<Rightarrow> handler_result \<times> world" where
  "sendOTP e w request =
     (case Unmarshal_OTPRequest e (APIGatewayProxyRequest.Body request) of
        Inl err \<Rightarrow>
          (Return (createResponse 400 ''Invalid request body'',
                   Some (''failed to unmarshal request: '' @ err)), w)
      | Inr otpReq \<Rightarrow>
          (let (otp, w1) = generateOTP e w
           in (case NewSession_err e of
                 Some serr \<Rightarrow> (Panic serr, w1)
               | None \<Rightarrow>
                   (let (perr, w2) =
                          dynamodb_PutItem e w1
                            (otp_item (OTPRequest.Identifier otpReq) (Now_Unix e) otp)
                    in (case perr of
                          Some err \<Rightarrow>
                            (Return (createResponse 500 ''Failed to store OTP'',
                                     Some (''failed to store OTP in DynamoDB: '' @ err)), w2)
                        | None \<Rightarrow>
                            (if Method otpReq = ''sms'' then
                               (let (derr, w3) =
                                      sns_Publish e w2 (''Your OTP is: '' @ otp)
                                        (OTPRequest.Identifier otpReq)
                                in (case derr of
                                      Some err \<Rightarrow>
                                        (Return (createResponse 500 ''Failed to send OTP'',
                                                 Some (''failed to send OTP: '' @ err)), w3)
                                    | None \<Rightarrow>
                                        (Return (createResponse 200 ''OTP sent successfully'', None), w3)))
                             else if Method otpReq = ''email'' then
                               (let (derr, w3) =
                                      ses_SendEmail e w2 defaultEmailAddress
                                        (OTPRequest.Identifier otpReq) ''Your OTP''
                                        (''Your OTP is: '' @ otp)
                                in (case derr of
                                      Some err \<Rightarrow>
                                        (Return (createResponse 500 ''Failed to send OTP'',
                                                 Some (''failed to send OTP: '' @ err)), w3)
                                    | None \<Rightarrow>
                                        (Return (createResponse 200 ''OTP sent successfully'', None), w3)))
                             else
                               (Return (createResponse 400 ''Invalid method'',
                                        Some (''invalid OTP send method: '' @ Method otpReq)), w2)))))))"

text \<open>
  \<open>*result.Items[0]["OTP"].S\<close> and \<open>*result.Items[0]["CreatedAt"].N\<close>: a missing
  attribute or a nil field is a nil dereference.
\<close>

definition deref_S :: "item \<Rightarrow> string \<Rightarrow> string option" where
  "deref_S it k = (case map_of it k of None \<Rightarrow> None | Some av \<Rightarrow> S av)"

definition deref_N :: "item \<Rightarrow> string \<Rightarrow> string option" where
  "deref_N it k = (case map_of it k of None \<Rightarrow> None | Some av \<Rightarrow> N av)"

definition nil_dereference :: string where
  "nil_dereference = ''runtime error: invalid memory address or nil pointer dereference''"

definition verifyOTP :: "env \<Rightarrow> world \<Rightarrow> APIGatewayProxyRequest \<Rightarrow> handler_result \<times> world" where
  "verifyOTP e w request =
     (case Unmarshal_OTPVerifyRequest e (APIGatewayProxyRequest.Body request) of
        Inl err \<Rightarrow>
          (Return (createResponse 400 ''Invalid request body'',
                   Some (''failed to unmarshal request: '' @ err)), w)
      | Inr verifyReq \<Rightarrow>
          (case NewSession_err e of
             Some serr \<Rightarrow> (Panic serr, w)
           | None \<Rightarrow>
               (let (result, w1) = dynamodb_Query e w (Identifier verifyReq)
                in (case result of
                    Inl err \<Rightarrow>
                      (Return (createResponse 500 ''Failed to retrieve OTP'',
                               Some (''failed to query DynamoDB: '' @ err)), w1)
                  | Inr Items \<Rightarrow>
                      (case Items of
                         [] \<Rightarrow>
                           (Return (createResponse 400 ''No OTP found'',
                                    Some (''no OTP found for identifier: '' @ Identifier verifyReq)), w1)
                       | it # _ \<Rightarrow>
                           (case deref_S it ''OTP'' of
                              None \<Rightarrow> (Panic nil_dereference, w1)
                            | Some storedOTP \<Rightarrow>
                                (case deref_N it ''CreatedAt'' of
                                   None \<Rightarrow> (Panic nil_dereference, w1)
                                 | Some created \<Rightarrow>
                                     (let createdAt = fst (ParseInt created)
                                      in if 300 < sint (Now_Unix e - createdAt) then
                                          (Return (createResponse 400 ''OTP expired'',
                                                   Some (''OTP expired for identifier: '' @ Identifier verifyReq)), w1)
                                        else if OTP verifyReq \<noteq> storedOTP then
                                          (Return (createResponse 400 ''Invalid OTP'',
                                                   Some (''invalid OTP provided for identifier: '' @ Identifier verifyReq)), w1)
                                        else
                                          (Return (createResponse 200 ''OTP verified successfully'', None), w1)))))))))"

definition handleRequest :: "env \<Rightarrow> world \<Rightarrow> APIGatewayProxyRequest \<Rightarrow> handler_result \<times> world" where
  "handleRequest e w request =
     (if Resource request = ''/send-otp'' then sendOTP e w request
      else if Resource request = ''/verify-otp'' then verifyOTP e w request
      else (Return (createResponse 404 ''Not Found'',
                    Some (''unknown resource: '' @ Resource request)), w))"

text \<open>
  The older file (part_000, lines 96-136): the same decisions; the responses carry no
  headers and only the failed query returns an error.
\<close>

definition verifyOTP_part_000 ::
  "env \<Rightarrow> world \<Rightarrow> APIGatewayProxyRequest \<Rightarrow> handler_result \<times> world" where
  "verifyOTP_part_000 e w request =
     (case Unmarshal_OTPVerifyRequest e (APIGatewayProxyRequest.Body request) of
        Inl err \<Rightarrow>
          (Return (\<lparr>StatusCode = 400, Body = ''Invalid request body'', Headers = []\<rparr>, None), w)
      | Inr verifyReq \<Rightarrow>
          (case NewSession_err e of
             Some serr \<Rightarrow> (Panic serr, w)
           | None \<Rightarrow>
               (let (result, w1) = dynamodb_Query e w (Identifier verifyReq)
                in (case result of
                    Inl err \<Rightarrow>
                      (Return (\<lparr>StatusCode = 500, Body = ''Failed to retrieve OTP'', Headers = []\<rparr>,
                               Some err), w1)
                  | Inr Items \<Rightarrow>
                      (case Items of
                         [] \<Rightarrow>
                           (Return (\<lparr>StatusCode = 400, Body = ''No OTP found'', Headers = []\<rparr>, None), w1)
                       | it # _ \<Rightarrow>
                           (case deref_S it ''OTP'' of
                              None \<Rightarrow> (Panic nil_dereference, w1)
                            | Some storedOTP \<Rightarrow>
                                (case deref_N it ''CreatedAt'' of
                                   None \<Rightarrow> (Panic nil_dereference, w1)
                                 | Some created \<Rightarrow>
                                     (let createdAt = fst (ParseInt created)
                                      in if 300 < sint (Now_Unix e - createdAt) then
                                          (Return (\<lparr>StatusCode = 400, Body = ''OTP expired'', Headers = []\<rparr>, None), w1)
                                        else if OTP verifyReq \<noteq> storedOTP then
                                          (Return (\<lparr>StatusCode = 400, Body = ''Invalid OTP'', Headers = []\<rparr>, None), w1)
                                        else
                                          (Return (\<lparr>StatusCode = 200, Body = ''OTP verified successfully'', Headers = []\<rparr>, None), w1)))))))))"

text \<open>The status code and the body of the response a handler returned, if it returned.\<close>

fun returned :: "handler_result \<Rightarrow> (int \<times> string) option" where
  "returned (Return (resp, err)) = Some (StatusCode resp, APIGatewayProxyResponse.Body resp)"
| "returned (Panic msg) = None"

section \<open>Concrete invocations\<close>

text \<open>
  A decoder that knows a few request bodies, and an invocation in which every call
  succeeds, the random source yields 7 and the clock reads 1700000000.
\<close>

definition example_body_sms :: string where
  \<open>example_body_sms = ''{"identifier":"+15551234567","method":"sms"}''\<close>

definition example_body_no_method :: string where
  \<open>example_body_no_method = ''{"identifier":"+15551234567"}''\<close>

definition example_body_fax :: string where
  \<open>example_body_fax = ''{"identifier":"+15551234567","method":"fax"}''\<close>

definition example_Unmarshal_OTPRequest :: "string \<Rightarrow> error + OTPRequest" where
  \<open>example_Unmarshal_OTPRequest body =
     (if body = ''{}'' then Inr \<lparr>OTPRequest.Identifier = [], Method = []\<rparr>
      else if body = example_body_sms
        then Inr \<lparr>OTPRequest.Identifier = ''+15551234567'', Method = ''sms''\<rparr>
      else if body = example_body_fax
        then Inr \<lparr>OTPRequest.Identifier = ''+15551234567'', Method = ''fax''\<rparr>
      else if body = ''{"identifier":"+15551234567"}''
        then Inr \<lparr>OTPRequest.Identifier = ''+15551234567'', Method = []\<rparr>
      else if body = ''null'' then Inr \<lparr>OTPRequest.Identifier = [], Method = []\<rparr>
      else Inl ''unexpected end of JSON input'')\<close>

definition example_body_otp_000007 :: string where
  \<open>example_body_otp_000007 = ''{"identifier":"+15551234567","otp":"000007"}''\<close>

definition example_body_otp_123456 :: string where
  \<open>example_body_otp_123456 = ''{"identifier":"+15551234567","otp":"123456"}''\<close>

definition example_body_otp_abc123 :: string where
  \<open>example_body_otp_abc123 = ''{"identifier":"+15551234567","otp":"abc123"}''\<close>

definition example_Unmarshal_OTPVerifyRequest :: "string \<Rightarrow> error + OTPVerifyRequest" where
  "example_Unmarshal_OTPVerifyRequest body =
     (if body = example_body_otp_000007
        then Inr \<lparr>Identifier = ''+15551234567'', OTP = ''000007''\<rparr>
      else if body = example_body_otp_123456
        then Inr \<lparr>Identifier = ''+15551234567'', OTP = ''123456''\<rparr>
      else if body = example_body_otp_abc123
        then Inr \<lparr>Identifier = ''+15551234567'', OTP = ''abc123''\<rparr>
      else if body = ''null'' then Inr \<lparr>Identifier = [], OTP = []\<rparr>
      else Inl ''unexpected end of JSON input'')"

definition example_env :: env where
  "example_env =
     \<lparr>Unmarshal_OTPRequest = example_Unmarshal_OTPRequest,
      Unmarshal_OTPVerifyRequest = example_Unmarshal_OTPVerifyRequest,
      Intn = (\<lambda>n. 7),
      NewSession_err = None,
      Now_Unix = 1700000000,
      PutItem_err = None,
      Query_err = None,
      Publish_err = None,
      SendEmail_err = None\<rparr>"

definition empty_world :: world where
  "empty_world = \<lparr>table = [], calls = []\<rparr>"

text \<open>
  Properties of a call log: \<open>dispatch_after_put stored cs\<close> holds when every
  \<open>Publish\<close> and \<open>SendEmail\<close> in \<open>cs\<close> comes after a \<open>PutItem\<close> (or \<open>stored\<close>
  says that one came before \<open>cs\<close>); \<open>new_calls w w'\<close> are the calls made between the
  worlds \<open>w\<close> and \<open>w'\<close>.
\<close>

fun dispatch_after_put :: "bool \<Rightarrow> call list \<Rightarrow> bool" where
  "dispatch_after_put stored [] = True"
| "dispatch_after_put stored (PutItem tbl it # cs) = dispatch_after_put True cs"
| "dispatch_after_put stored (Publish m p # cs) = (stored \<and> dispatch_after_put stored cs)"
| "dispatch_after_put stored (SendEmail f t s b # cs) = (stored \<and> dispatch_after_put stored cs)"
| "dispatch_after_put stored (RandSeed # cs) = dispatch_after_put stored cs"
| "dispatch_after_put stored (RandIntn n # cs) = dispatch_after_put stored cs"
| "dispatch_after_put stored (Query tbl i # cs) = dispatch_after_put stored cs"

fun is_dispatch :: "call \<Rightarrow> bool" where
  "is_dispatch (Publish m p) = True"
| "is_dispatch (SendEmail f t s b) = True"
| "is_dispatch c = False"

definition new_calls :: "world \<Rightarrow> world \<Rightarrow> call list" where
  "new_calls w w' = drop (length (calls w)) (calls w')"

text \<open>Requests as the router passes them on.\<close>

definition send_request :: "string \<Rightarrow> APIGatewayProxyRequest" where
  "send_request body = \<lparr>Resource = ''/send-otp'', APIGatewayProxyRequest.Body = body\<rparr>"

definition verify_request :: "string \<Rightarrow> APIGatewayProxyRequest" where
  "verify_request body = \<lparr>Resource = ''/verify-otp'', APIGatewayProxyRequest.Body = body\<rparr>"

text \<open>A stored record with the given identifier, \<open>CreatedAt\<close> text and OTP.\<close>

definition example_record :: "string \<Rightarrow> string \<Rightarrow> string \<Rightarrow> item" where
  "example_record ident created otp =
     [(''Identifier'', \<lparr>S = Some ident, N = None\<rparr>),
      (''CreatedAt'', \<lparr>S = None, N = Some created\<rparr>),
      (''OTP'', \<lparr>S = Some otp, N = None\<rparr>)]"

text \<open>
  Two Sends for the same phone number, 50 seconds apart, the first drawing 123456 and
  the second 7.
\<close>

definition example_first_send_env :: env where
  "example_first_send_env = example_env\<lparr>Intn := (\<lambda>n. 123456)\<rparr>"

definition example_second_send_env :: env where
  "example_second_send_env = example_env\<lparr>Now_Unix := 1700000050\<rparr>"

definition example_world_after_one_send :: world where
  "example_world_after_one_send =
     snd (sendOTP example_first_send_env empty_world (send_request example_body_sms))"

definition example_world_after_two_sends :: world where
  "example_world_after_two_sends =
     snd (sendOTP example_second_send_env example_world_after_one_send
            (send_request example_body_sms))"

section \<open>Decimal digits\<close>

lemma of_char_digit_char: "d < 10 \<Longrightarrow> (of_char (digit_char d) :: nat) = 48 + d"
  by (simp add: digit_char_def)

lemma is_digit_digit_char: "d < 10 \<Longrightarrow> is_digit (digit_char d)"
  by (simp add: is_digit_def of_char_digit_char)

lemma digit_val_digit_char: "d < 10 \<Longrightarrow> digit_val (digit_char d) = d"
  by (simp add: digit_val_def of_char_digit_char)

lemma digits10_nonempty: "digits10 n \<noteq> []"
  by (subst digits10.simps) simp

lemma digits10_all_digits: "list_all is_digit (digits10 n)"
proof (induction n rule: digits10.induct)
  case (1 n)
  show ?case
  proof (cases "n < 10")
    case True
    then show ?thesis by (subst digits10.simps) (simp add: is_digit_digit_char)
  next
    case False
    with 1 show ?thesis by (subst digits10.simps) (simp add: is_digit_digit_char)
  qed
qed

lemma decimal_value_snoc: "decimal_value (s @ [c]) = decimal_value s * 10 + digit_val c"
  by (simp add: decimal_value_def)

lemma decimal_value_digits10: "decimal_value (digits10 n) = n"
proof (induction n rule: digits10.induct)
  case (1 n)
  show ?case
  proof (cases "n < 10")
    case True
    then show ?thesis
      by (subst digits10.simps) (simp add: decimal_value_def digit_val_digit_char)
  next
    case False
    with 1 have "decimal_value (digits10 (n div 10)) = n div 10" by simp
    with False show ?thesis
      by (subst digits10.simps) (simp add: decimal_value_snoc digit_val_digit_char)
  qed
qed

lemma length_digits10_le: "0 < k \<Longrightarrow> n < 10 ^ k \<Longrightarrow> length (digits10 n) \<le> k"
proof (induction n arbitrary: k rule: digits10.induct)
  case (1 n)
  show ?case
  proof (cases "n < 10")
    case True
    with 1(2) show ?thesis by (subst digits10.simps) simp
  next
    case False
    have "k \<noteq> 1" using False 1(3) by auto
    with 1(2) obtain j where j: "k = Suc j" "0 < j" by (cases k) auto
    from 1(3) j(1) have "n < 10 * 10 ^ j" by simp
    then have "n div 10 < 10 ^ j" by (simp add: less_mult_imp_div_less mult.commute)
    with 1(1)[OF False j(2)] have "length (digits10 (n div 10)) \<le> j" by simp
    with False j(1) show ?thesis by (subst digits10.simps) simp
  qed
qed

lemma foldl_zeros: "foldl (\<lambda>n c. n * 10 + digit_val c) 0 (replicate k CHR ''0'') = 0"
  by (induction k) (simp_all add: digit_val_def)

lemma decimal_value_zeros: "decimal_value (replicate k CHR ''0'' @ s) = decimal_value s"
  by (simp add: decimal_value_def foldl_zeros)

lemma digit_char_in: "d < 10 \<Longrightarrow> digit_char d \<in> set ''0123456789''"
proof -
  have t: "list_all (\<lambda>d. digit_char d \<in> set ''0123456789'') [0, 1, 2, 3, 4, 5, 6, 7, 8, 9]"
    by code_simp
  assume "d < 10"
  then have "d \<in> set [0, 1, 2, 3, 4, 5, 6, 7, 8, 9]" by auto
  with t show ?thesis unfolding list_all_iff by blast
qed

lemma is_digit_iff: "is_digit c \<longleftrightarrow> c \<in> set ''0123456789''"
proof
  assume "is_digit c"
  then have b: "48 \<le> (of_char c :: nat)" "(of_char c :: nat) \<le> 57"
    by (simp_all add: is_digit_def)
  define d where "d = (of_char c :: nat) - 48"
  have "c = char_of (of_char c :: nat)" by simp
  also have "(of_char c :: nat) = 48 + d" using b by (simp add: d_def)
  finally have "c = digit_char d" by (simp add: digit_char_def)
  moreover have "d < 10" using b by (simp add: d_def)
  ultimately show "c \<in> set ''0123456789''" using digit_char_in by blast
next
  assume "c \<in> set ''0123456789''"
  then show "is_digit c" by (auto simp: is_digit_def)
qed

lemma Sprintf_06d_7: "Sprintf_06d 7 = ''000007''"
  by code_simp

section \<open>The OTP generator\<close>

text \<open>
  C5. \<open>rand.Intn(1000000)\<close> returns a value from 0 up to 999999. For every such value
  \<open>generateOTP\<close> returns a string of exactly six characters, each one of the ASCII
  digits 0 to 9 (so it matches \<open>^[0-9]{6}$\<close>); read as a decimal number the string is the
  random value, so it lies between 000000 and 999999; the string is the decimal form of
  the value with zeros in front; the value 7 gives \<open>000007\<close>. The generator of the older
  file returns the same string.
\<close>

theorem generateOTP_six_digits:
  assumes "0 \<le> Intn e 1000000" and "Intn e 1000000 < 1000000"
  shows "length (fst (generateOTP e w)) = 6
       \<and> set (fst (generateOTP e w)) \<subseteq> set ''0123456789''
       \<and> int (decimal_value (fst (generateOTP e w))) = Intn e 1000000
       \<and> fst (generateOTP e w) =
           replicate (6 - length (digits10 (nat (Intn e 1000000)))) CHR ''0''
             @ digits10 (nat (Intn e 1000000))
       \<and> (Intn e 1000000 = 7 \<longrightarrow> fst (generateOTP e w) = ''000007'')
       \<and> fst (generateOTP_part_000 e w) = fst (generateOTP e w)"
proof -
  define r where "r = nat (Intn e 1000000)"
  have r: "r < 10 ^ 6" "int r = Intn e 1000000" using assms by (simp_all add: r_def)
  have otp: "fst (generateOTP e w) = replicate (6 - length (digits10 r)) CHR ''0'' @ digits10 r"
    using assms by (simp add: generateOTP_def Sprintf_06d_def r_def)
  have len: "length (digits10 r) \<le> 6" using r(1) by (intro length_digits10_le) simp_all
  have "set (digits10 r) \<subseteq> set ''0123456789''"
    using digits10_all_digits[of r] is_digit_iff by (auto simp: list_all_iff)
  then have digs: "set (fst (generateOTP e w)) \<subseteq> set ''0123456789''"
    unfolding otp by auto
  have seven: "Intn e 1000000 = 7 \<longrightarrow> fst (generateOTP e w) = ''000007''"
    by (simp add: generateOTP_def Sprintf_06d_7)
  have old: "fst (generateOTP_part_000 e w) = fst (generateOTP e w)"
    by (simp add: generateOTP_part_000_def generateOTP_def)
  show ?thesis
    using len digs seven old r(2)
    by (simp add: otp decimal_value_zeros decimal_value_digits10 r_def)
qed

theorem generateOTP_six_digits_witness:
  "0 \<le> Intn example_env 1000000 \<and> Intn example_env 1000000 < 1000000
   \<and> length (fst (generateOTP example_env empty_world)) = 6
   \<and> fst (generateOTP example_env empty_world) = ''000007''
   \<and> fst (generateOTP_part_000 example_env empty_world) = ''000007''"
proof -
  have h1: "0 \<le> Intn example_env 1000000" by (simp add: example_env_def)
  have h2: "Intn example_env 1000000 < 1000000" by (simp add: example_env_def)
  have seven: "Intn example_env 1000000 = 7" by (simp add: example_env_def)
  note t = generateOTP_six_digits[OF h1 h2, of empty_world]
  from t have len: "length (fst (generateOTP example_env empty_world)) = 6" by blast
  from t seven have otp: "fst (generateOTP example_env empty_world) = ''000007''" by blast
  from t otp have "fst (generateOTP_part_000 example_env empty_world) = ''000007''" by simp
  with h1 h2 len otp show ?thesis by blast
qed

section \<open>Reading back what \<open>FormatInt\<close> wrote\<close>

lemma foldl_digits_ge: "m \<le> foldl (\<lambda>n c. n * 10 + digit_val c) m s"
proof (induction s arbitrary: m)
  case Nil
  show ?case by simp
next
  case (Cons c cs)
  have "m \<le> m * 10 + digit_val c" by simp
  also have "\<dots> \<le> foldl (\<lambda>n c. n * 10 + digit_val c) (m * 10 + digit_val c) cs"
    by (rule Cons.IH)
  finally show ?case by simp
qed

lemma ParseUint_loop_digits:
  "list_all is_digit s \<Longrightarrow> foldl (\<lambda>n c. n * 10 + digit_val c) m s \<le> maxUint64
   \<Longrightarrow> ParseUint_loop m s = (foldl (\<lambda>n c. n * 10 + digit_val c) m s, None)"
proof (induction s arbitrary: m)
  case Nil
  show ?case by simp
next
  case (Cons c cs)
  let ?m' = "m * 10 + digit_val c"
  from Cons.prems have dig: "is_digit c" "list_all is_digit cs" by simp_all
  from Cons.prems(2) have b: "foldl (\<lambda>n c. n * 10 + digit_val c) ?m' cs \<le> maxUint64" by simp
  have "?m' \<le> foldl (\<lambda>n c. n * 10 + digit_val c) ?m' cs" by (rule foldl_digits_ge)
  with b have m': "?m' \<le> maxUint64" by simp
  then have "m * 10 \<le> maxUint64" by simp
  then have "m \<le> maxUint64 div 10" by (simp add: less_eq_div_iff_mult_less_eq)
  with m' dig(1) have "ParseUint_loop m (c # cs) = ParseUint_loop ?m' cs" by simp
  also have "\<dots> = (foldl (\<lambda>n c. n * 10 + digit_val c) ?m' cs, None)"
    by (rule Cons.IH[OF dig(2) b])
  finally show ?case by simp
qed

lemma ParseUint_digits10: "n \<le> maxUint64 \<Longrightarrow> ParseUint (digits10 n) = (n, None)"
  using ParseUint_loop_digits[of "digits10 n" 0] decimal_value_digits10[of n]
  by (simp add: ParseUint_def digits10_nonempty digits10_all_digits decimal_value_def)

lemma hd_digits10_digit: "is_digit (hd (digits10 n))"
  using digits10_all_digits[of n] digits10_nonempty[of n]
  by (cases "digits10 n") simp_all

lemma hd_digits10_no_sign: "hd (digits10 n) \<noteq> CHR ''-''" "hd (digits10 n) \<noteq> CHR ''+''"
  using hd_digits10_digit[of n] by (auto simp: is_digit_def)

lemma ParseInt_FormatInt: "ParseInt (FormatInt t) = (t, None)"
proof (cases "sint t < 0")
  case False
  define n where "n = nat (sint t)"
  have lt: "sint t < 2 ^ 63" using sint_lt[of t] by simp
  with False have n: "n < 2 ^ 63" "int n = sint t" by (simp_all add: n_def)
  then have "n \<le> maxUint64" by (simp add: maxUint64_def)
  then have pu: "ParseUint (digits10 n) = (n, None)" by (rule ParseUint_digits10)
  have "(of_nat n :: 64 word) = of_int (int n)" by simp
  also have "\<dots> = t" unfolding n(2) by simp
  finally have w: "(of_nat n :: 64 word) = t" .
  from False have "FormatInt t = digits10 n" by (simp add: FormatInt_def n_def)
  then show ?thesis
    using pu n(1) w by (simp add: ParseInt_def digits10_nonempty hd_digits10_no_sign)
next
  case True
  define n where "n = nat (- sint t)"
  have ge: "- (2 ^ 63) \<le> sint t" using sint_ge[of t] by simp
  with True have n: "n \<le> 2 ^ 63" "int n = - sint t" by (simp_all add: n_def)
  then have "n \<le> maxUint64" by (simp add: maxUint64_def)
  then have pu: "ParseUint (digits10 n) = (n, None)" by (rule ParseUint_digits10)
  have "(of_nat n :: 64 word) = of_int (int n)" by simp
  also have "\<dots> = - t" unfolding n(2) by simp
  finally have w: "- (of_nat n :: 64 word) = t" by simp
  from True have "FormatInt t = CHR ''-'' # digits10 n" by (simp add: FormatInt_def n_def)
  then show ?thesis
    using pu n(1) w by (simp add: ParseInt_def)
qed

lemma decimal_digits_digits10: "decimal_digits (digits10 n) = Some n"
  by (simp add: decimal_digits_def digits10_nonempty digits10_all_digits decimal_value_digits10)

lemma N_value_FormatInt: "N_value (FormatInt t) = Some (sint t)"
proof (cases "sint t < 0")
  case True
  then show ?thesis by (simp add: N_value_def FormatInt_def decimal_digits_digits10)
next
  case False
  then show ?thesis
    by (cases "digits10 (nat (sint t))")
       (use digits10_nonempty hd_digits10_no_sign(1)[of "nat (sint t)"] decimal_digits_digits10[of "nat (sint t)"]
        in \<open>auto simp: N_value_def FormatInt_def\<close>)
qed

lemma ParseInt_syntax_zero: "snd (ParseInt s) = Some ErrSyntax \<Longrightarrow> fst (ParseInt s) = 0"
  by (auto simp: ParseInt_def Let_def split: prod.splits if_splits)

section \<open>The newest record of an identifier\<close>

lemma key_le_total: "\<not> key_le a b \<Longrightarrow> key_le b a"
  by (cases a; cases b) auto

lemma key_le_trans: "key_le a b \<Longrightarrow> key_le b c \<Longrightarrow> key_le a c"
  by (cases a; cases b; cases c) auto

lemma key_le_refl: "key_le a a"
  by (cases a) auto

lemma lookupLatest_None: "lookupLatest tbl ident = None \<longleftrightarrow> (\<forall>it \<in> set tbl. \<not> item_matches ident it)"
  by (induction tbl) (auto split: option.splits)

lemma lookupLatest_Some_mem:
  "lookupLatest tbl ident = Some b \<Longrightarrow> b \<in> set tbl \<and> item_matches ident b"
  by (induction tbl arbitrary: b) (auto split: option.splits if_splits)

lemma lookupLatest_greatest:
  "lookupLatest tbl ident = Some b \<Longrightarrow> it \<in> set tbl \<Longrightarrow> item_matches ident it
   \<Longrightarrow> key_le (sortKey it) (sortKey b)"
proof (induction tbl arbitrary: b)
  case Nil
  then show ?case by simp
next
  case (Cons x rest)
  show ?case
  proof (cases "lookupLatest rest ident")
    case None
    then have no: "\<forall>y \<in> set rest. \<not> item_matches ident y" by (simp add: lookupLatest_None)
    from Cons.prems(1) None have "b = x" by (simp split: if_splits)
    moreover from no Cons.prems(2,3) have "it = x" by auto
    ultimately show ?thesis by (simp add: key_le_refl)
  next
    case (Some c)
    note IH = Cons.IH[OF Some]
    show ?thesis
    proof (cases "item_matches ident x \<and> \<not> key_le (sortKey x) (sortKey c)")
      case True
      with Cons.prems(1) Some have bx: "b = x" by simp
      show ?thesis
      proof (cases "it = x")
        case True
        with bx show ?thesis by (simp add: key_le_refl)
      next
        case False
        with Cons.prems(2) have "it \<in> set rest" by simp
        then have "key_le (sortKey it) (sortKey c)" using Cons.prems(3) by (rule IH)
        moreover from True have "key_le (sortKey c) (sortKey x)" by (simp add: key_le_total)
        ultimately show ?thesis unfolding bx by (rule key_le_trans)
      qed
    next
      case False
      with Cons.prems(1) Some have bc: "b = c" by auto
      show ?thesis
      proof (cases "it \<in> set rest")
        case True
        then show ?thesis unfolding bc using Cons.prems(3) by (rule IH)
      next
        case False
        with Cons.prems(2) have "it = x" by simp
        with \<open>\<not> (item_matches ident x \<and> \<not> key_le (sortKey x) (sortKey c))\<close> Cons.prems(3)
        show ?thesis unfolding bc by simp
      qed
    qed
  qed
qed

text \<open>A record whose key lies strictly above the key of every other record of the identifier is the one returned.\<close>

lemma lookupLatest_newest:
  assumes mem: "r \<in> set tbl" and m: "item_matches ident r"
      and newest: "\<forall>it \<in> set tbl. item_matches ident it \<and> it \<noteq> r \<longrightarrow> \<not> key_le (sortKey r) (sortKey it)"
  shows "lookupLatest tbl ident = Some r"
proof (cases "lookupLatest tbl ident")
  case None
  with mem m show ?thesis by (simp add: lookupLatest_None)
next
  case (Some b)
  then have b: "b \<in> set tbl" "item_matches ident b" by (simp_all add: lookupLatest_Some_mem)
  from Some mem m have "key_le (sortKey r) (sortKey b)" by (rule lookupLatest_greatest)
  with newest b have "b = r" by blast
  with Some show ?thesis by simp
qed

lemma item_matches_otp_item: "item_matches ident (otp_item ident' t otp) \<longleftrightarrow> ident' = ident"
  by (simp add: item_matches_def otp_item_def)

lemma sortKey_otp_item: "sortKey (otp_item ident t otp) = Some (sint t)"
  by (simp add: sortKey_def otp_item_def N_value_FormatInt)

lemma deref_otp_item:
  "deref_S (otp_item ident t otp) ''OTP'' = Some otp"
  "deref_N (otp_item ident t otp) ''CreatedAt'' = Some (FormatInt t)"
  by (simp_all add: deref_S_def deref_N_def otp_item_def)

section \<open>The paths through the handlers\<close>

lemma verifyOTP_malformed:
  "Unmarshal_OTPVerifyRequest e (APIGatewayProxyRequest.Body request) = Inl err
   \<Longrightarrow> verifyOTP e w request =
       (Return (createResponse 400 ''Invalid request body'',
                Some (''failed to unmarshal request: '' @ err)), w)"
  by (simp add: verifyOTP_def)

lemma verifyOTP_query_failed:
  "Unmarshal_OTPVerifyRequest e (APIGatewayProxyRequest.Body request) = Inr verifyReq
   \<Longrightarrow> NewSession_err e = None \<Longrightarrow> Query_err e = Some err
   \<Longrightarrow> fst (verifyOTP e w request) =
       Return (createResponse 500 ''Failed to retrieve OTP'',
               Some (''failed to query DynamoDB: '' @ err))"
  by (simp add: verifyOTP_def dynamodb_Query_def Let_def)

lemma verifyOTP_not_found:
  "Unmarshal_OTPVerifyRequest e (APIGatewayProxyRequest.Body request) = Inr verifyReq
   \<Longrightarrow> NewSession_err e = None \<Longrightarrow> Query_err e = None
   \<Longrightarrow> lookupLatest (table w) (Identifier verifyReq) = None
   \<Longrightarrow> fst (verifyOTP e w request) =
       Return (createResponse 400 ''No OTP found'',
               Some (''no OTP found for identifier: '' @ Identifier verifyReq))"
  by (simp add: verifyOTP_def dynamodb_Query_def Let_def)

lemma verifyOTP_found:
  "Unmarshal_OTPVerifyRequest e (APIGatewayProxyRequest.Body request) = Inr verifyReq
   \<Longrightarrow> NewSession_err e = None \<Longrightarrow> Query_err e = None
   \<Longrightarrow> lookupLatest (table w) (Identifier verifyReq) = Some it
   \<Longrightarrow> deref_S it ''OTP'' = Some storedOTP
   \<Longrightarrow> deref_N it ''CreatedAt'' = Some created
   \<Longrightarrow> fst (verifyOTP e w request) =
       (if 300 < sint (Now_Unix e - fst (ParseInt created)) then
          Return (createResponse 400 ''OTP expired'',
                  Some (''OTP expired for identifier: '' @ Identifier verifyReq))
        else if OTP verifyReq \<noteq> storedOTP then
          Return (createResponse 400 ''Invalid OTP'',
                  Some (''invalid OTP provided for identifier: '' @ Identifier verifyReq))
        else Return (createResponse 200 ''OTP verified successfully'', None))"
  by (simp add: verifyOTP_def dynamodb_Query_def Let_def)

lemma verifyOTP_part_000_found:
  "Unmarshal_OTPVerifyRequest e (APIGatewayProxyRequest.Body request) = Inr verifyReq
   \<Longrightarrow> NewSession_err e = None \<Longrightarrow> Query_err e = None
   \<Longrightarrow> lookupLatest (table w) (Identifier verifyReq) = Some it
   \<Longrightarrow> deref_S it ''OTP'' = Some storedOTP
   \<Longrightarrow> deref_N it ''CreatedAt'' = Some created
   \<Longrightarrow> fst (verifyOTP_part_000 e w request) =
       (if 300 < sint (Now_Unix e - fst (ParseInt created)) then
          Return (\<lparr>StatusCode = 400, Body = ''OTP expired'', Headers = []\<rparr>, None)
        else if OTP verifyReq \<noteq> storedOTP then
          Return (\<lparr>StatusCode = 400, Body = ''Invalid OTP'', Headers = []\<rparr>, None)
        else Return (\<lparr>StatusCode = 200, Body = ''OTP verified successfully'', Headers = []\<rparr>, None))"
  by (simp add: verifyOTP_part_000_def dynamodb_Query_def Let_def)

lemma createResponse_sel [simp]:
  "StatusCode (createResponse code body) = code"
  "APIGatewayProxyResponse.Body (createResponse code body) = body"
  by (simp_all add: createResponse_def)

lemma sendOTP_malformed:
  "Unmarshal_OTPRequest e (APIGatewayProxyRequest.Body request) = Inl err
   \<Longrightarrow> sendOTP e w request =
       (Return (createResponse 400 ''Invalid request body'',
                Some (''failed to unmarshal request: '' @ err)), w)"
  by (simp add: sendOTP_def)

lemma sendOTP_store_failed:
  "Unmarshal_OTPRequest e (APIGatewayProxyRequest.Body request) = Inr otpReq
   \<Longrightarrow> NewSession_err e = None \<Longrightarrow> PutItem_err e = Some err
   \<Longrightarrow> sendOTP e w request =
       (Return (createResponse 500 ''Failed to store OTP'',
                Some (''failed to store OTP in DynamoDB: '' @ err)),
        w\<lparr>calls := calls w @
             [RandIntn 1000000,
              PutItem ''OTP'' (otp_item (OTPRequest.Identifier otpReq) (Now_Unix e)
                                 (Sprintf_06d (Intn e 1000000)))]\<rparr>)"
  by (simp add: sendOTP_def generateOTP_def dynamodb_PutItem_def log_call_def Let_def)

lemma sendOTP_invalid_method:
  "Unmarshal_OTPRequest e (APIGatewayProxyRequest.Body request) = Inr otpReq
   \<Longrightarrow> NewSession_err e = None \<Longrightarrow> PutItem_err e = None
   \<Longrightarrow> Method otpReq \<noteq> ''sms'' \<Longrightarrow> Method otpReq \<noteq> ''email''
   \<Longrightarrow> sendOTP e w request =
       (Return (createResponse 400 ''Invalid method'',
                Some (''invalid OTP send method: '' @ Method otpReq)),
        w\<lparr>calls := calls w @
             [RandIntn 1000000,
              PutItem ''OTP'' (otp_item (OTPRequest.Identifier otpReq) (Now_Unix e)
                                 (Sprintf_06d (Intn e 1000000)))],
          table := table w @
             [otp_item (OTPRequest.Identifier otpReq) (Now_Unix e)
                (Sprintf_06d (Intn e 1000000))]\<rparr>)"
  by (simp add: sendOTP_def generateOTP_def dynamodb_PutItem_def log_call_def Let_def)

lemma sendOTP_sms:
  "Unmarshal_OTPRequest e (APIGatewayProxyRequest.Body request) = Inr otpReq
   \<Longrightarrow> NewSession_err e = None \<Longrightarrow> PutItem_err e = None
   \<Longrightarrow> Method otpReq = ''sms''
   \<Longrightarrow> sendOTP e w request =
       (Return (case Publish_err e of
                  Some err \<Rightarrow> (createResponse 500 ''Failed to send OTP'',
                               Some (''failed to send OTP: '' @ err))
                | None \<Rightarrow> (createResponse 200 ''OTP sent successfully'', None)),
        w\<lparr>calls := calls w @
             [RandIntn 1000000,
              PutItem ''OTP'' (otp_item (OTPRequest.Identifier otpReq) (Now_Unix e)
                                 (Sprintf_06d (Intn e 1000000))),
              Publish (''Your OTP is: '' @ Sprintf_06d (Intn e 1000000))
                (OTPRequest.Identifier otpReq)],
          table := table w @
             [otp_item (OTPRequest.Identifier otpReq) (Now_Unix e)
                (Sprintf_06d (Intn e 1000000))]\<rparr>)"
  by (simp add: sendOTP_def generateOTP_def dynamodb_PutItem_def sns_Publish_def log_call_def
        Let_def split: option.splits)

lemma sendOTP_email:
  "Unmarshal_OTPRequest e (APIGatewayProxyRequest.Body request) = Inr otpReq
   \<Longrightarrow> NewSession_err e = None \<Longrightarrow> PutItem_err e = None
   \<Longrightarrow> Method otpReq = ''email''
   \<Longrightarrow> sendOTP e w request =
       (Return (case SendEmail_err e of
                  Some err \<Rightarrow> (createResponse 500 ''Failed to send OTP'',
                               Some (''failed to send OTP: '' @ err))
                | None \<Rightarrow> (createResponse 200 ''OTP sent successfully'', None)),
        w\<lparr>calls := calls w @
             [RandIntn 1000000,
              PutItem ''OTP'' (otp_item (OTPRequest.Identifier otpReq) (Now_Unix e)
                                 (Sprintf_06d (Intn e 1000000))),
              SendEmail defaultEmailAddress (OTPRequest.Identifier otpReq) ''Your OTP''
                (''Your OTP is: '' @ Sprintf_06d (Intn e 1000000))],
          table := table w @
             [otp_item (OTPRequest.Identifier otpReq) (Now_Unix e)
                (Sprintf_06d (Intn e 1000000))]\<rparr>)"
  by (simp add: sendOTP_def generateOTP_def dynamodb_PutItem_def ses_SendEmail_def log_call_def
        Let_def split: option.splits)

lemma sendOTP_session_failed:
  "Unmarshal_OTPRequest e (APIGatewayProxyRequest.Body request) = Inr otpReq
   \<Longrightarrow> NewSession_err e = Some err
   \<Longrightarrow> sendOTP e w request = (Panic err, w\<lparr>calls := calls w @ [RandIntn 1000000]\<rparr>)"
  by (simp add: sendOTP_def generateOTP_def log_call_def Let_def)

section \<open>The Send handler: malformed bodies and failed writes\<close>

lemma sendOTP_put_first: "dispatch_after_put False (new_calls w (snd (sendOTP e w request)))"
proof (cases "Unmarshal_OTPRequest e (APIGatewayProxyRequest.Body request)")
  case (Inl err)
  then show ?thesis by (simp add: sendOTP_malformed new_calls_def)
next
  case (Inr otpReq)
  show ?thesis
  proof (cases "NewSession_err e")
    case (Some err)
    with Inr show ?thesis by (simp add: sendOTP_session_failed new_calls_def)
  next
    case None
    note sess = this
    show ?thesis
    proof (cases "PutItem_err e")
      case (Some err)
      with Inr sess show ?thesis by (simp add: sendOTP_store_failed new_calls_def)
    next
      case None
      consider "Method otpReq = ''sms''" | "Method otpReq = ''email''"
        | "Method otpReq \<noteq> ''sms''" "Method otpReq \<noteq> ''email''" by blast
      then show ?thesis
      proof cases
        case 1
        with Inr sess None show ?thesis by (simp add: sendOTP_sms new_calls_def)
      next
        case 2
        with Inr sess None show ?thesis by (simp add: sendOTP_email new_calls_def)
      next
        case 3
        with Inr sess None show ?thesis by (simp add: sendOTP_invalid_method new_calls_def)
      qed
    qed
  qed
qed

text \<open>
  C7. When \<open>json.Unmarshal\<close> of the body of a Send request fails, the handler returns
  400 \<open>Invalid request body\<close> and the world is left as it was: no random number was
  drawn (no OTP generated), the table was not written, and no call to a service was
  made (no dispatch attempted).
\<close>

theorem sendOTP_malformed_no_effects:
  assumes "Unmarshal_OTPRequest e (APIGatewayProxyRequest.Body request) = Inl err"
  shows "returned (fst (sendOTP e w request)) = Some (400, ''Invalid request body'')
       \<and> snd (sendOTP e w request) = w
       \<and> table (snd (sendOTP e w request)) = table w
       \<and> new_calls w (snd (sendOTP e w request)) = []"
  using assms by (simp add: sendOTP_malformed new_calls_def)

theorem sendOTP_malformed_no_effects_witness:
  "Unmarshal_OTPRequest example_env (APIGatewayProxyRequest.Body (send_request ''{'')) =
     Inl ''unexpected end of JSON input''
   \<and> returned (fst (sendOTP example_env empty_world (send_request ''{''))) =
       Some (400, ''Invalid request body'')
   \<and> snd (sendOTP example_env empty_world (send_request ''{'')) = empty_world"
proof -
  have h: "Unmarshal_OTPRequest example_env (APIGatewayProxyRequest.Body (send_request ''{'')) =
     Inl ''unexpected end of JSON input''"
    by (simp add: example_env_def example_Unmarshal_OTPRequest_def send_request_def
          example_body_sms_def example_body_fax_def)
  from sendOTP_malformed_no_effects[OF h, of empty_world] h show ?thesis by blast
qed

text \<open>
  C8. In every run of the Send handler each \<open>Publish\<close> or \<open>SendEmail\<close> call comes after
  the \<open>PutItem\<close> call. When the body is well-formed (and the session was created) and
  \<open>PutItem\<close> fails, the handler returns 500 \<open>Failed to store OTP\<close>; the only calls
  made are the random draw and the failed \<open>PutItem\<close>, so no notification is attempted,
  and the table is unchanged.
\<close>

theorem sendOTP_store_failure:
  "dispatch_after_put False (new_calls w (snd (sendOTP e w request)))
   \<and> (Unmarshal_OTPRequest e (APIGatewayProxyRequest.Body request) = Inr otpReq
        \<and> NewSession_err e = None \<and> PutItem_err e = Some err
      \<longrightarrow> returned (fst (sendOTP e w request)) = Some (500, ''Failed to store OTP'')
        \<and> new_calls w (snd (sendOTP e w request)) =
            [RandIntn 1000000,
             PutItem ''OTP'' (otp_item (OTPRequest.Identifier otpReq) (Now_Unix e)
                                (fst (generateOTP e w)))]
        \<and> \<not> list_ex is_dispatch (new_calls w (snd (sendOTP e w request)))
        \<and> table (snd (sendOTP e w request)) = table w)"
  using sendOTP_put_first[of w e request]
  by (simp add: sendOTP_store_failed new_calls_def generateOTP_def)


theorem sendOTP_store_failure_witness:
  "Unmarshal_OTPRequest (example_env\<lparr>PutItem_err := Some ''ResourceNotFoundException''\<rparr>)
     (APIGatewayProxyRequest.Body (send_request example_body_sms)) =
     Inr \<lparr>OTPRequest.Identifier = ''+15551234567'', Method = ''sms''\<rparr>
   \<and> NewSession_err (example_env\<lparr>PutItem_err := Some ''ResourceNotFoundException''\<rparr>) = None
   \<and> PutItem_err (example_env\<lparr>PutItem_err := Some ''ResourceNotFoundException''\<rparr>) =
       Some ''ResourceNotFoundException''
   \<and> returned (fst (sendOTP (example_env\<lparr>PutItem_err := Some ''ResourceNotFoundException''\<rparr>)
                        empty_world (send_request example_body_sms))) =
       Some (500, ''Failed to store OTP'')
   \<and> new_calls empty_world
         (snd (sendOTP (example_env\<lparr>PutItem_err := Some ''ResourceNotFoundException''\<rparr>)
                 empty_world (send_request example_body_sms))) =
       [RandIntn 1000000, PutItem ''OTP'' (otp_item ''+15551234567'' 1700000000 ''000007'')]"
proof -
  define e where "e = example_env\<lparr>PutItem_err := Some ''ResourceNotFoundException''\<rparr>"
  define otpReq where "otpReq = \<lparr>OTPRequest.Identifier = ''+15551234567'', Method = ''sms''\<rparr>"
  have h1: "Unmarshal_OTPRequest e (APIGatewayProxyRequest.Body (send_request example_body_sms)) =
              Inr otpReq"
    by (simp add: e_def otpReq_def example_env_def example_Unmarshal_OTPRequest_def
          send_request_def example_body_sms_def)
  have h2: "NewSession_err e = None" by (simp add: e_def example_env_def)
  have h3: "PutItem_err e = Some ''ResourceNotFoundException''" by (simp add: e_def)
  have g: "fst (generateOTP e empty_world) = ''000007''"
    by (simp add: generateOTP_def e_def example_env_def Sprintf_06d_7)
  have n: "Now_Unix e = 1700000000" by (simp add: e_def example_env_def)
  have i: "OTPRequest.Identifier otpReq = ''+15551234567''" by (simp add: otpReq_def)
  note t = sendOTP_store_failure[of empty_world e "send_request example_body_sms" otpReq
             "''ResourceNotFoundException''"]
  from t h1 h2 h3 have
    "returned (fst (sendOTP e empty_world (send_request example_body_sms))) =
       Some (500, ''Failed to store OTP'')"
    "new_calls empty_world (snd (sendOTP e empty_world (send_request example_body_sms))) =
       [RandIntn 1000000, PutItem ''OTP'' (otp_item (OTPRequest.Identifier otpReq) (Now_Unix e)
                                             (fst (generateOTP e empty_world)))]"
    by blast+
  with h1 h2 h3 show ?thesis unfolding g n i unfolding e_def otpReq_def by blast
qed

section \<open>The Send handler: a method that is neither sms nor email\<close>

text \<open>
  C6. When the body of a Send request is well-formed and its method is neither \<open>sms\<close>
  nor \<open>email\<close> (the session was created and the store accepted the write), the handler
  returns 400 \<open>Invalid method\<close>; the \<open>PutItem\<close> call was made before the method was
  looked at, no notification call follows it, and the record is the last one of the
  table in the world the handler leaves behind: nothing takes it back.
\<close>

theorem sendOTP_invalid_method_keeps_record:
  assumes "Unmarshal_OTPRequest e (APIGatewayProxyRequest.Body request) = Inr otpReq"
      and "Method otpReq \<noteq> ''sms''" and "Method otpReq \<noteq> ''email''"
      and "NewSession_err e = None" and "PutItem_err e = None"
  shows "returned (fst (sendOTP e w request)) = Some (400, ''Invalid method'')
       \<and> table (snd (sendOTP e w request)) =
           table w @ [otp_item (OTPRequest.Identifier otpReq) (Now_Unix e) (fst (generateOTP e w))]
       \<and> new_calls w (snd (sendOTP e w request)) =
           [RandIntn 1000000,
            PutItem ''OTP'' (otp_item (OTPRequest.Identifier otpReq) (Now_Unix e)
                               (fst (generateOTP e w)))]"
  using assms by (simp add: sendOTP_invalid_method new_calls_def generateOTP_def)

theorem sendOTP_invalid_method_keeps_record_witness:
  "Unmarshal_OTPRequest example_env (APIGatewayProxyRequest.Body (send_request example_body_fax)) =
     Inr \<lparr>OTPRequest.Identifier = ''+15551234567'', Method = ''fax''\<rparr>
   \<and> ''fax'' \<noteq> ''sms'' \<and> ''fax'' \<noteq> ''email''
   \<and> NewSession_err example_env = None \<and> PutItem_err example_env = None
   \<and> returned (fst (sendOTP example_env empty_world (send_request example_body_fax))) =
       Some (400, ''Invalid method'')
   \<and> table (snd (sendOTP example_env empty_world (send_request example_body_fax))) =
       [otp_item ''+15551234567'' 1700000000 ''000007'']"
proof -
  define otpReq where "otpReq = \<lparr>OTPRequest.Identifier = ''+15551234567'', Method = ''fax''\<rparr>"
  have h1: "Unmarshal_OTPRequest example_env
              (APIGatewayProxyRequest.Body (send_request example_body_fax)) = Inr otpReq"
    by (simp add: otpReq_def example_env_def example_Unmarshal_OTPRequest_def
          send_request_def example_body_sms_def example_body_fax_def)
  have h2: "Method otpReq \<noteq> ''sms''" and h3: "Method otpReq \<noteq> ''email''"
    by (simp_all add: otpReq_def)
  have h4: "NewSession_err example_env = None" and h5: "PutItem_err example_env = None"
    by (simp_all add: example_env_def)
  have g: "fst (generateOTP example_env empty_world) = ''000007''"
    by (simp add: generateOTP_def example_env_def Sprintf_06d_7)
  have n: "Now_Unix example_env = 1700000000" by (simp add: example_env_def)
  have i: "OTPRequest.Identifier otpReq = ''+15551234567''" by (simp add: otpReq_def)
  have t0: "table empty_world = []" by (simp add: empty_world_def)
  note t = sendOTP_invalid_method_keeps_record[OF h1 h2 h3 h4 h5, of empty_world]
  from t have
    "returned (fst (sendOTP example_env empty_world (send_request example_body_fax))) =
       Some (400, ''Invalid method'')"
    "table (snd (sendOTP example_env empty_world (send_request example_body_fax))) =
       [otp_item ''+15551234567'' 1700000000 ''000007'']"
    unfolding g n i t0 by simp_all
  with h1 h4 h5 show ?thesis unfolding otpReq_def by simp
qed

text \<open>
  C9 as stated does not hold. \<open>{}\<close> is decoded with both fields at their zero value, an
  OTP is drawn and the write is attempted with the empty string as identifier; that is
  the partition key, DynamoDB refuses it, and the run ends in 500 \<open>Failed to store OTP\<close>
  with nothing stored, not in 400 \<open>Invalid method\<close>. An invocation in which this write
  is answered without an error does not answer as DynamoDB does.
\<close>

theorem sendOTP_empty_object_counterexample:
  "Unmarshal_OTPRequest
     (example_env\<lparr>PutItem_err := Some ''ValidationException: empty string value for key Identifier''\<rparr>)
     (APIGatewayProxyRequest.Body (send_request ''{}'')) =
     Inr \<lparr>OTPRequest.Identifier = [], Method = []\<rparr>
   \<and> empty_partition_key (otp_item [] 1700000000 ''000007'')
   \<and> \<not> answers_as_DynamoDB example_env (otp_item [] 1700000000 ''000007'')
   \<and> answers_as_DynamoDB
         (example_env\<lparr>PutItem_err := Some ''ValidationException: empty string value for key Identifier''\<rparr>)
         (otp_item [] 1700000000 ''000007'')
   \<and> returned (fst (sendOTP
         (example_env\<lparr>PutItem_err := Some ''ValidationException: empty string value for key Identifier''\<rparr>)
         empty_world (send_request ''{}''))) = Some (500, ''Failed to store OTP'')
   \<and> returned (fst (sendOTP
         (example_env\<lparr>PutItem_err := Some ''ValidationException: empty string value for key Identifier''\<rparr>)
         empty_world (send_request ''{}''))) \<noteq> Some (400, ''Invalid method'')
   \<and> table (snd (sendOTP
         (example_env\<lparr>PutItem_err := Some ''ValidationException: empty string value for key Identifier''\<rparr>)
         empty_world (send_request ''{}''))) = []"
proof -
  let ?err = "''ValidationException: empty string value for key Identifier''"
  let ?e = "example_env\<lparr>PutItem_err := Some ?err\<rparr>"
  let ?o = "\<lparr>OTPRequest.Identifier = [], Method = []\<rparr>"
  have u: "Unmarshal_OTPRequest ?e (APIGatewayProxyRequest.Body (send_request ''{}'')) = Inr ?o"
    by (simp add: example_env_def example_Unmarshal_OTPRequest_def send_request_def)
  have s: "NewSession_err ?e = None" by (simp add: example_env_def)
  have p: "PutItem_err ?e = Some ?err" by simp
  have k: "empty_partition_key (otp_item [] 1700000000 ''000007'')"
    by (simp add: empty_partition_key_def otp_item_def)
  have no: "\<not> answers_as_DynamoDB example_env (otp_item [] 1700000000 ''000007'')"
    using k by (simp add: answers_as_DynamoDB_def example_env_def)
  have yes: "answers_as_DynamoDB ?e (otp_item [] 1700000000 ''000007'')"
    by (simp add: answers_as_DynamoDB_def)
  have r: "returned (fst (sendOTP ?e empty_world (send_request ''{}''))) =
             Some (500, ''Failed to store OTP'')"
    by (simp add: sendOTP_store_failed[OF u s p])
  have t: "table (snd (sendOTP ?e empty_world (send_request ''{}''))) = []"
    by (simp add: sendOTP_store_failed[OF u s p] empty_world_def)
  from u k no yes r t show ?thesis by simp
qed

text \<open>
  C9, as the code has it. A body that \<open>json.Unmarshal\<close> accepts with fields at their zero
  value is not rejected as malformed; the handler goes on to draw an OTP and to call
  \<open>PutItem\<close> (the session was created). For \<open>{}\<close>, decoded with both fields empty, the
  item has the empty string as identifier; an invocation that answers as DynamoDB does
  returns an error for it, so the handler returns 500 \<open>Failed to store OTP\<close>, the table
  is unchanged and no notification call is made. When only the method is missing, the
  identifier is not empty and the store accepts the write, the record is stored and the
  handler then returns 400 \<open>Invalid method\<close>, the empty method being neither \<open>sms\<close> nor
  \<open>email\<close>.
\<close>

theorem sendOTP_omitted_fields:
  assumes "NewSession_err e = None"
  shows "(APIGatewayProxyRequest.Body request = ''{}''
          \<and> Unmarshal_OTPRequest e ''{}'' = Inr \<lparr>OTPRequest.Identifier = [], Method = []\<rparr>
          \<and> answers_as_DynamoDB e (otp_item [] (Now_Unix e) (fst (generateOTP e w)))
          \<longrightarrow> returned (fst (sendOTP e w request)) = Some (500, ''Failed to store OTP'')
            \<and> new_calls w (snd (sendOTP e w request)) =
                [RandIntn 1000000,
                 PutItem ''OTP'' (otp_item [] (Now_Unix e) (fst (generateOTP e w)))]
            \<and> table (snd (sendOTP e w request)) = table w)
       \<and> (Unmarshal_OTPRequest e (APIGatewayProxyRequest.Body request) = Inr otpReq
          \<and> OTPRequest.Identifier otpReq \<noteq> [] \<and> Method otpReq = []
          \<and> PutItem_err e = None
          \<longrightarrow> returned (fst (sendOTP e w request)) = Some (400, ''Invalid method'')
            \<and> new_calls w (snd (sendOTP e w request)) =
                [RandIntn 1000000,
                 PutItem ''OTP'' (otp_item (OTPRequest.Identifier otpReq) (Now_Unix e)
                                    (fst (generateOTP e w)))]
            \<and> table (snd (sendOTP e w request)) =
                table w @ [otp_item (OTPRequest.Identifier otpReq) (Now_Unix e)
                             (fst (generateOTP e w))])"
proof (intro conjI impI)
  assume a: "APIGatewayProxyRequest.Body request = ''{}''
          \<and> Unmarshal_OTPRequest e ''{}'' = Inr \<lparr>OTPRequest.Identifier = [], Method = []\<rparr>
          \<and> answers_as_DynamoDB e (otp_item [] (Now_Unix e) (fst (generateOTP e w)))"
  then have u: "Unmarshal_OTPRequest e (APIGatewayProxyRequest.Body request) =
                  Inr \<lparr>OTPRequest.Identifier = [], Method = []\<rparr>"
    by simp
  have "empty_partition_key (otp_item [] (Now_Unix e) (fst (generateOTP e w)))"
    by (simp add: empty_partition_key_def otp_item_def)
  with a have "PutItem_err e \<noteq> None" by (simp add: answers_as_DynamoDB_def)
  then obtain err where p: "PutItem_err e = Some err" by blast
  note run = sendOTP_store_failed[OF u assms p, of w]
  show "returned (fst (sendOTP e w request)) = Some (500, ''Failed to store OTP'')"
    by (simp add: run)
  show "new_calls w (snd (sendOTP e w request)) =
          [RandIntn 1000000, PutItem ''OTP'' (otp_item [] (Now_Unix e) (fst (generateOTP e w)))]"
    by (simp add: run new_calls_def generateOTP_def)
  show "table (snd (sendOTP e w request)) = table w"
    by (simp add: run)
next
  assume b: "Unmarshal_OTPRequest e (APIGatewayProxyRequest.Body request) = Inr otpReq
          \<and> OTPRequest.Identifier otpReq \<noteq> [] \<and> Method otpReq = []
          \<and> PutItem_err e = None"
  then have u: "Unmarshal_OTPRequest e (APIGatewayProxyRequest.Body request) = Inr otpReq"
    and p: "PutItem_err e = None"
    and m: "Method otpReq \<noteq> ''sms''" "Method otpReq \<noteq> ''email''"
    by simp_all
  note run = sendOTP_invalid_method[OF u assms p m, of w]
  show "returned (fst (sendOTP e w request)) = Some (400, ''Invalid method'')"
    by (simp add: run)
  show "new_calls w (snd (sendOTP e w request)) =
          [RandIntn 1000000,
           PutItem ''OTP'' (otp_item (OTPRequest.Identifier otpReq) (Now_Unix e)
                              (fst (generateOTP e w)))]"
    by (simp add: run new_calls_def generateOTP_def)
  show "table (snd (sendOTP e w request)) =
          table w @ [otp_item (OTPRequest.Identifier otpReq) (Now_Unix e) (fst (generateOTP e w))]"
    by (simp add: run generateOTP_def)
qed

theorem sendOTP_omitted_fields_witness:
  "NewSession_err (example_env\<lparr>PutItem_err := Some ''ValidationException''\<rparr>) = None
   \<and> APIGatewayProxyRequest.Body (send_request ''{}'') = ''{}''
   \<and> Unmarshal_OTPRequest (example_env\<lparr>PutItem_err := Some ''ValidationException''\<rparr>) ''{}'' =
       Inr \<lparr>OTPRequest.Identifier = [], Method = []\<rparr>
   \<and> answers_as_DynamoDB (example_env\<lparr>PutItem_err := Some ''ValidationException''\<rparr>)
         (otp_item [] 1700000000 ''000007'')
   \<and> returned (fst (sendOTP (example_env\<lparr>PutItem_err := Some ''ValidationException''\<rparr>)
                        empty_world (send_request ''{}''))) = Some (500, ''Failed to store OTP'')
   \<and> table (snd (sendOTP (example_env\<lparr>PutItem_err := Some ''ValidationException''\<rparr>)
                     empty_world (send_request ''{}''))) = []
   \<and> NewSession_err example_env = None
   \<and> Unmarshal_OTPRequest example_env
         (APIGatewayProxyRequest.Body (send_request example_body_no_method)) =
       Inr \<lparr>OTPRequest.Identifier = ''+15551234567'', Method = []\<rparr>
   \<and> PutItem_err example_env = None
   \<and> returned (fst (sendOTP example_env empty_world (send_request example_body_no_method))) =
       Some (400, ''Invalid method'')
   \<and> table (snd (sendOTP example_env empty_world (send_request example_body_no_method))) =
       [otp_item ''+15551234567'' 1700000000 ''000007'']"
proof -
  let ?e = "example_env\<lparr>PutItem_err := Some ''ValidationException''\<rparr>"
  let ?o = "\<lparr>OTPRequest.Identifier = ''+15551234567'', Method = []\<rparr>"
  have s1: "NewSession_err ?e = None" and s2: "NewSession_err example_env = None"
    by (simp_all add: example_env_def)
  have b1: "APIGatewayProxyRequest.Body (send_request ''{}'') = ''{}''"
    by (simp add: send_request_def)
  have u1: "Unmarshal_OTPRequest ?e ''{}'' = Inr \<lparr>OTPRequest.Identifier = [], Method = []\<rparr>"
    by (simp add: example_env_def example_Unmarshal_OTPRequest_def)
  have g1: "fst (generateOTP ?e empty_world) = ''000007''"
    by (simp add: generateOTP_def example_env_def Sprintf_06d_7)
  have n1: "Now_Unix ?e = 1700000000" by (simp add: example_env_def)
  have d1: "answers_as_DynamoDB ?e (otp_item [] 1700000000 ''000007'')"
    by (simp add: answers_as_DynamoDB_def)
  have d1': "answers_as_DynamoDB ?e (otp_item [] (Now_Unix ?e) (fst (generateOTP ?e empty_world)))"
    unfolding g1 n1 by (rule d1)
  have t0: "table empty_world = []" by (simp add: empty_world_def)
  note first = sendOTP_omitted_fields[OF s1, where w = empty_world
                 and request = "send_request ''{}''", THEN conjunct1, rule_format]
  from first b1 u1 d1' have
    r1: "returned (fst (sendOTP ?e empty_world (send_request ''{}''))) =
           Some (500, ''Failed to store OTP'')"
    and "table (snd (sendOTP ?e empty_world (send_request ''{}''))) = table empty_world"
    by blast+
  then have c1: "table (snd (sendOTP ?e empty_world (send_request ''{}''))) = []"
    unfolding t0 by simp
  have u2: "Unmarshal_OTPRequest example_env
              (APIGatewayProxyRequest.Body (send_request example_body_no_method)) = Inr ?o"
    by (simp add: example_env_def example_Unmarshal_OTPRequest_def send_request_def
          example_body_no_method_def example_body_sms_def example_body_fax_def)
  have p2: "PutItem_err example_env = None" by (simp add: example_env_def)
  have i2: "OTPRequest.Identifier ?o \<noteq> []" "Method ?o = []"
           "OTPRequest.Identifier ?o = ''+15551234567''" by simp_all
  have g2: "fst (generateOTP example_env empty_world) = ''000007''"
    by (simp add: generateOTP_def example_env_def Sprintf_06d_7)
  have n2: "Now_Unix example_env = 1700000000" by (simp add: example_env_def)
  note second = sendOTP_omitted_fields[OF s2, where w = empty_world
                  and request = "send_request example_body_no_method" and otpReq = ?o,
                  THEN conjunct2, rule_format]
  from second u2 i2(1,2) p2 have
    r2: "returned (fst (sendOTP example_env empty_world (send_request example_body_no_method))) =
           Some (400, ''Invalid method'')"
    and "table (snd (sendOTP example_env empty_world (send_request example_body_no_method))) =
           table empty_world @ [otp_item (OTPRequest.Identifier ?o) (Now_Unix example_env)
                                  (fst (generateOTP example_env empty_world))]"
    by blast+
  then have c2: "table (snd (sendOTP example_env empty_world (send_request example_body_no_method))) =
           [otp_item ''+15551234567'' 1700000000 ''000007'']"
    unfolding g2 n2 t0 i2(3) by simp
  from s1 b1 u1 d1 r1 c1 s2 u2 p2 r2 c2 show ?thesis by blast
qed

section \<open>The Verify handler\<close>

lemma lookupLatest_single:
  "item_matches ident it \<Longrightarrow> lookupLatest [it] ident = Some it"
  by simp

lemma example_record_simps:
  "item_matches ident' (example_record ident created otp) \<longleftrightarrow> ident = ident'"
  "deref_S (example_record ident created otp) ''OTP'' = Some otp"
  "deref_N (example_record ident created otp) ''CreatedAt'' = Some created"
  by (simp_all add: example_record_def item_matches_def deref_S_def deref_N_def)

lemma example_verify_bodies:
  "Unmarshal_OTPVerifyRequest (example_env\<lparr>Now_Unix := t, Query_err := q\<rparr>)
     (APIGatewayProxyRequest.Body (verify_request example_body_otp_000007)) =
     Inr \<lparr>Identifier = ''+15551234567'', OTP = ''000007''\<rparr>"
  "Unmarshal_OTPVerifyRequest (example_env\<lparr>Now_Unix := t, Query_err := q\<rparr>)
     (APIGatewayProxyRequest.Body (verify_request example_body_otp_123456)) =
     Inr \<lparr>Identifier = ''+15551234567'', OTP = ''123456''\<rparr>"
  "Unmarshal_OTPVerifyRequest (example_env\<lparr>Now_Unix := t, Query_err := q\<rparr>)
     (APIGatewayProxyRequest.Body (verify_request example_body_otp_abc123)) =
     Inr \<lparr>Identifier = ''+15551234567'', OTP = ''abc123''\<rparr>"
  by (simp_all add: example_env_def example_Unmarshal_OTPVerifyRequest_def verify_request_def
        example_body_otp_000007_def example_body_otp_123456_def example_body_otp_abc123_def)

lemma example_env_simps:
  "NewSession_err (example_env\<lparr>Now_Unix := t, Query_err := q\<rparr>) = None"
  "Query_err (example_env\<lparr>Now_Unix := t, Query_err := q\<rparr>) = q"
  "Now_Unix (example_env\<lparr>Now_Unix := t, Query_err := q\<rparr>) = t"
  by (simp_all add: example_env_def)

lemma ParseInt_examples:
  "ParseInt ''1700000000'' = (1700000000, None)"
  "ParseInt ''9223372036854775808'' = (2 ^ 63 - 1, Some ErrRange)"
  "ParseInt ''1.5'' = (0, Some ErrSyntax)"
  by (simp_all add: ParseInt_def ParseUint_def is_digit_def digit_val_def maxUint64_def)

text \<open>
  C1. For a Verify request whose body is well-formed (and with the session created) the
  handler returns one response, decided in this order: the query failed: 500
  \<open>Failed to retrieve OTP\<close>; no record of the identifier in the table: 400
  \<open>No OTP found\<close>; otherwise, for the record that the query returns, with its stored
  OTP and its \<open>CreatedAt\<close>: more than 300 seconds old: 400 \<open>OTP expired\<close>, whether or
  not the submitted OTP is the stored one; the submitted OTP is not the very same string
  as the stored one: 400 \<open>Invalid OTP\<close>; else 200 \<open>OTP verified successfully\<close>.
\<close>

theorem verifyOTP_decision_order:
  assumes "Unmarshal_OTPVerifyRequest e (APIGatewayProxyRequest.Body request) = Inr verifyReq"
      and "NewSession_err e = None"
  shows "(Query_err e \<noteq> None \<longrightarrow>
            returned (fst (verifyOTP e w request)) = Some (500, ''Failed to retrieve OTP''))
       \<and> (Query_err e = None \<and> (\<forall>it \<in> set (table w). \<not> item_matches (Identifier verifyReq) it) \<longrightarrow>
            returned (fst (verifyOTP e w request)) = Some (400, ''No OTP found''))
       \<and> (Query_err e = None \<and> lookupLatest (table w) (Identifier verifyReq) = Some it
            \<and> deref_S it ''OTP'' = Some storedOTP \<and> deref_N it ''CreatedAt'' = Some created \<longrightarrow>
            returned (fst (verifyOTP e w request)) =
              Some (if 300 < sint (Now_Unix e - fst (ParseInt created)) then (400, ''OTP expired'')
                    else if OTP verifyReq \<noteq> storedOTP then (400, ''Invalid OTP'')
                    else (200, ''OTP verified successfully'')))"
proof (intro conjI impI)
  assume "Query_err e \<noteq> None"
  then obtain err where "Query_err e = Some err" by blast
  with assms show "returned (fst (verifyOTP e w request)) = Some (500, ''Failed to retrieve OTP'')"
    by (simp add: verifyOTP_query_failed)
next
  assume "Query_err e = None \<and> (\<forall>it \<in> set (table w). \<not> item_matches (Identifier verifyReq) it)"
  then have "Query_err e = None" "lookupLatest (table w) (Identifier verifyReq) = None"
    by (simp_all add: lookupLatest_None)
  with assms show "returned (fst (verifyOTP e w request)) = Some (400, ''No OTP found'')"
    by (simp add: verifyOTP_not_found)
next
  assume "Query_err e = None \<and> lookupLatest (table w) (Identifier verifyReq) = Some it
            \<and> deref_S it ''OTP'' = Some storedOTP \<and> deref_N it ''CreatedAt'' = Some created"
  then have "Query_err e = None" "lookupLatest (table w) (Identifier verifyReq) = Some it"
    "deref_S it ''OTP'' = Some storedOTP" "deref_N it ''CreatedAt'' = Some created" by simp_all
  from verifyOTP_found[OF assms this]
  show "returned (fst (verifyOTP e w request)) =
              Some (if 300 < sint (Now_Unix e - fst (ParseInt created)) then (400, ''OTP expired'')
                    else if OTP verifyReq \<noteq> storedOTP then (400, ''Invalid OTP'')
                    else (200, ''OTP verified successfully''))"
    by simp
qed


theorem verifyOTP_decision_order_witness:
  "Unmarshal_OTPVerifyRequest (example_env\<lparr>Now_Unix := 1700000301, Query_err := None\<rparr>)
     (APIGatewayProxyRequest.Body (verify_request example_body_otp_000007)) =
     Inr \<lparr>Identifier = ''+15551234567'', OTP = ''000007''\<rparr>
   \<and> NewSession_err (example_env\<lparr>Now_Unix := 1700000301, Query_err := None\<rparr>) = None
   \<and> returned (fst (verifyOTP (example_env\<lparr>Now_Unix := 1700000301, Query_err := Some ''timeout''\<rparr>)
         \<lparr>table = [example_record ''+15551234567'' ''1700000000'' ''000007''], calls = []\<rparr>
         (verify_request example_body_otp_000007))) = Some (500, ''Failed to retrieve OTP'')
   \<and> returned (fst (verifyOTP (example_env\<lparr>Now_Unix := 1700000301, Query_err := None\<rparr>)
         empty_world (verify_request example_body_otp_000007))) = Some (400, ''No OTP found'')
   \<and> returned (fst (verifyOTP (example_env\<lparr>Now_Unix := 1700000301, Query_err := None\<rparr>)
         \<lparr>table = [example_record ''+15551234567'' ''1700000000'' ''000007''], calls = []\<rparr>
         (verify_request example_body_otp_000007))) = Some (400, ''OTP expired'')
   \<and> returned (fst (verifyOTP (example_env\<lparr>Now_Unix := 1700000100, Query_err := None\<rparr>)
         \<lparr>table = [example_record ''+15551234567'' ''1700000000'' ''000007''], calls = []\<rparr>
         (verify_request example_body_otp_123456))) = Some (400, ''Invalid OTP'')
   \<and> returned (fst (verifyOTP (example_env\<lparr>Now_Unix := 1700000100, Query_err := None\<rparr>)
         \<lparr>table = [example_record ''+15551234567'' ''1700000000'' ''ABC123''], calls = []\<rparr>
         (verify_request example_body_otp_abc123))) = Some (400, ''Invalid OTP'')
   \<and> returned (fst (verifyOTP (example_env\<lparr>Now_Unix := 1700000100, Query_err := None\<rparr>)
         \<lparr>table = [example_record ''+15551234567'' ''1700000000'' ''000007''], calls = []\<rparr>
         (verify_request example_body_otp_000007))) = Some (200, ''OTP verified successfully'')"
proof -
  let ?r = "example_record ''+15551234567'' ''1700000000'' ''000007''"
  let ?R = "example_record ''+15551234567'' ''1700000000'' ''ABC123''"
  let ?w = "\<lparr>table = [?r], calls = []\<rparr>"
  let ?W = "\<lparr>table = [?R], calls = []\<rparr>"
  let ?late = "example_env\<lparr>Now_Unix := 1700000301, Query_err := None\<rparr>"
  let ?down = "example_env\<lparr>Now_Unix := 1700000301, Query_err := Some ''timeout''\<rparr>"
  let ?soon = "example_env\<lparr>Now_Unix := 1700000100, Query_err := None\<rparr>"
  have l: "lookupLatest (table ?w) ''+15551234567'' = Some ?r"
          "lookupLatest (table ?W) ''+15551234567'' = Some ?R"
    by (simp_all add: example_record_simps)
  have u_late: "Unmarshal_OTPVerifyRequest ?late
      (APIGatewayProxyRequest.Body (verify_request example_body_otp_000007)) =
      Inr \<lparr>Identifier = ''+15551234567'', OTP = ''000007''\<rparr>"
    by (rule example_verify_bodies(1))
  have u_down: "Unmarshal_OTPVerifyRequest ?down
      (APIGatewayProxyRequest.Body (verify_request example_body_otp_000007)) =
      Inr \<lparr>Identifier = ''+15551234567'', OTP = ''000007''\<rparr>"
    by (rule example_verify_bodies(1))
  have u_soon: "Unmarshal_OTPVerifyRequest ?soon
      (APIGatewayProxyRequest.Body (verify_request example_body_otp_000007)) =
      Inr \<lparr>Identifier = ''+15551234567'', OTP = ''000007''\<rparr>"
    by (rule example_verify_bodies(1))
  have u_soon2: "Unmarshal_OTPVerifyRequest ?soon
      (APIGatewayProxyRequest.Body (verify_request example_body_otp_123456)) =
      Inr \<lparr>Identifier = ''+15551234567'', OTP = ''123456''\<rparr>"
    by (rule example_verify_bodies(2))
  have u_soon3: "Unmarshal_OTPVerifyRequest ?soon
      (APIGatewayProxyRequest.Body (verify_request example_body_otp_abc123)) =
      Inr \<lparr>Identifier = ''+15551234567'', OTP = ''abc123''\<rparr>"
    by (rule example_verify_bodies(3))
  have s: "NewSession_err ?late = None" "NewSession_err ?down = None" "NewSession_err ?soon = None"
    by (rule example_env_simps(1))+
  have a: "returned (fst (verifyOTP ?down ?w (verify_request example_body_otp_000007))) =
             Some (500, ''Failed to retrieve OTP'')"
    using verifyOTP_decision_order[OF u_down s(2), where w = ?w]
    by (simp add: example_env_simps)
  have b: "returned (fst (verifyOTP ?late empty_world (verify_request example_body_otp_000007))) =
             Some (400, ''No OTP found'')"
    using verifyOTP_decision_order[OF u_late s(1), where w = empty_world]
    by (simp add: example_env_simps empty_world_def)
  have c: "returned (fst (verifyOTP ?late ?w (verify_request example_body_otp_000007))) =
             Some (400, ''OTP expired'')"
    using verifyOTP_decision_order[OF u_late s(1), where w = ?w and it = ?r
              and storedOTP = "''000007''" and created = "''1700000000''"] l(1)
    by (simp add: example_env_simps example_record_simps ParseInt_examples)
  have d: "returned (fst (verifyOTP ?soon ?w (verify_request example_body_otp_123456))) =
             Some (400, ''Invalid OTP'')"
    using verifyOTP_decision_order[OF u_soon2 s(3), where w = ?w and it = ?r
              and storedOTP = "''000007''" and created = "''1700000000''"] l(1)
    by (simp add: example_env_simps example_record_simps ParseInt_examples)
  have d': "returned (fst (verifyOTP ?soon ?W (verify_request example_body_otp_abc123))) =
             Some (400, ''Invalid OTP'')"
    using verifyOTP_decision_order[OF u_soon3 s(3), where w = ?W and it = ?R
              and storedOTP = "''ABC123''" and created = "''1700000000''"] l(2)
    by (simp add: example_env_simps example_record_simps ParseInt_examples)
  have f: "returned (fst (verifyOTP ?soon ?w (verify_request example_body_otp_000007))) =
             Some (200, ''OTP verified successfully'')"
    using verifyOTP_decision_order[OF u_soon s(3), where w = ?w and it = ?r
              and storedOTP = "''000007''" and created = "''1700000000''"] l(1)
    by (simp add: example_env_simps example_record_simps ParseInt_examples)
  from a b c d d' f u_late s(1) show ?thesis by blast
qed

lemma age_no_wrap:
  fixes now createdAt :: "64 word"
  assumes "0 \<le> sint createdAt" and "0 \<le> sint now"
  shows "sint (now - createdAt) = sint now - sint createdAt"
proof -
  have b: "sint now < 2 ^ 63" "sint createdAt < 2 ^ 63"
    using sint_lt[of now] sint_lt[of createdAt] by simp_all
  have "sint (now - createdAt) = signed_take_bit 63 (sint now - sint createdAt)"
    by (simp add: sint_word_ariths)
  also have "\<dots> = sint now - sint createdAt"
    using assms b by (intro signed_take_bit_int_eq_self) simp_all
  finally show ?thesis .
qed

text \<open>
  C2. For a Verify that finds a record, with \<open>now - createdAt\<close> the \<open>int64\<close>
  subtraction of the handler: when it is exactly 300 the record is still valid, so the
  answer is 200 if the submitted OTP is the stored one (and 400 \<open>Invalid OTP\<close> if not);
  when it is 301 or more the answer is 400 \<open>OTP expired\<close>. For clock values from 0 on,
  the \<open>int64\<close> subtraction is the difference of the two numbers.
\<close>

theorem verifyOTP_expiry_boundary:
  assumes "Unmarshal_OTPVerifyRequest e (APIGatewayProxyRequest.Body request) = Inr verifyReq"
      and "NewSession_err e = None" and "Query_err e = None"
      and "lookupLatest (table w) (Identifier verifyReq) = Some it"
      and "deref_S it ''OTP'' = Some storedOTP" and "deref_N it ''CreatedAt'' = Some created"
  shows "(Now_Unix e - fst (ParseInt created) = 300 \<longrightarrow>
            returned (fst (verifyOTP e w request)) =
              Some (if OTP verifyReq = storedOTP then (200, ''OTP verified successfully'')
                    else (400, ''Invalid OTP'')))
       \<and> (301 \<le> sint (Now_Unix e - fst (ParseInt created)) \<longrightarrow>
            returned (fst (verifyOTP e w request)) = Some (400, ''OTP expired''))
       \<and> (0 \<le> sint (fst (ParseInt created)) \<and> 0 \<le> sint (Now_Unix e) \<longrightarrow>
            sint (Now_Unix e - fst (ParseInt created)) =
              sint (Now_Unix e) - sint (fst (ParseInt created)))"
  using verifyOTP_found[OF assms] age_no_wrap[of "fst (ParseInt created)" "Now_Unix e"] by auto

theorem verifyOTP_expiry_boundary_witness:
  "Unmarshal_OTPVerifyRequest (example_env\<lparr>Now_Unix := 1700000300, Query_err := None\<rparr>)
     (APIGatewayProxyRequest.Body (verify_request example_body_otp_000007)) =
     Inr \<lparr>Identifier = ''+15551234567'', OTP = ''000007''\<rparr>
   \<and> lookupLatest [otp_item ''+15551234567'' 1700000000 ''000007''] ''+15551234567'' =
       Some (otp_item ''+15551234567'' 1700000000 ''000007'')
   \<and> (1700000300 :: 64 word) - fst (ParseInt (FormatInt 1700000000)) = 300
   \<and> returned (fst (verifyOTP (example_env\<lparr>Now_Unix := 1700000300, Query_err := None\<rparr>)
         \<lparr>table = [otp_item ''+15551234567'' 1700000000 ''000007''], calls = []\<rparr>
         (verify_request example_body_otp_000007))) = Some (200, ''OTP verified successfully'')
   \<and> 301 \<le> sint ((1700000301 :: 64 word) - fst (ParseInt (FormatInt 1700000000)))
   \<and> returned (fst (verifyOTP (example_env\<lparr>Now_Unix := 1700000301, Query_err := None\<rparr>)
         \<lparr>table = [otp_item ''+15551234567'' 1700000000 ''000007''], calls = []\<rparr>
         (verify_request example_body_otp_000007))) = Some (400, ''OTP expired'')"
proof -
  let ?r = "otp_item ''+15551234567'' 1700000000 ''000007''"
  let ?w = "\<lparr>table = [?r], calls = []\<rparr>"
  let ?at300 = "example_env\<lparr>Now_Unix := 1700000300, Query_err := None\<rparr>"
  let ?at301 = "example_env\<lparr>Now_Unix := 1700000301, Query_err := None\<rparr>"
  have l: "lookupLatest (table ?w) (Identifier \<lparr>Identifier = ''+15551234567'', OTP = ''000007''\<rparr>)
             = Some ?r"
    by (simp add: item_matches_otp_item)
  have u300: "Unmarshal_OTPVerifyRequest ?at300
      (APIGatewayProxyRequest.Body (verify_request example_body_otp_000007)) =
      Inr \<lparr>Identifier = ''+15551234567'', OTP = ''000007''\<rparr>"
    by (rule example_verify_bodies(1))
  have u301: "Unmarshal_OTPVerifyRequest ?at301
      (APIGatewayProxyRequest.Body (verify_request example_body_otp_000007)) =
      Inr \<lparr>Identifier = ''+15551234567'', OTP = ''000007''\<rparr>"
    by (rule example_verify_bodies(1))
  have s: "NewSession_err ?at300 = None" "NewSession_err ?at301 = None"
    by (rule example_env_simps(1))+
  have q: "Query_err ?at300 = None" "Query_err ?at301 = None"
    by (rule example_env_simps(2))+
  have p300: "(1700000300 :: 64 word) - fst (ParseInt (FormatInt 1700000000)) = 300"
    by (simp add: ParseInt_FormatInt)
  have p301: "301 \<le> sint ((1700000301 :: 64 word) - fst (ParseInt (FormatInt 1700000000)))"
    by (simp add: ParseInt_FormatInt)
  have a: "returned (fst (verifyOTP ?at300 ?w (verify_request example_body_otp_000007))) =
             Some (200, ''OTP verified successfully'')"
    using verifyOTP_expiry_boundary[OF u300 s(1) q(1) l deref_otp_item] p300
    by (simp add: example_env_simps)
  have b: "returned (fst (verifyOTP ?at301 ?w (verify_request example_body_otp_000007))) =
             Some (400, ''OTP expired'')"
    using verifyOTP_expiry_boundary[OF u301 s(2) q(2) l deref_otp_item] p301
    by (simp add: example_env_simps)
  from l have l': "lookupLatest [?r] ''+15551234567'' = Some ?r" by simp
  from a b p300 p301 l' u300 show ?thesis by blast
qed

section \<open>The Verify handler: a CreatedAt that does not parse\<close>

lemma ParseInt_range_value:
  "snd (ParseInt s) = Some ErrRange \<Longrightarrow> fst (ParseInt s) = 2 ^ 63 - 1 \<or> fst (ParseInt s) = - (2 ^ 63)"
  by (auto simp: ParseInt_def Let_def split: prod.splits if_splits)

text \<open>
  C10, as the code has it. The error of \<open>strconv.ParseInt\<close> on the stored \<open>CreatedAt\<close>
  is dropped and the handler goes on with the value alone: it answers with one of its
  three verdicts and never with a data error. When \<open>CreatedAt\<close> is not a decimal integer
  at all (\<open>ErrSyntax\<close>), the value is 0, so whenever the current Unix time exceeds 300
  the record is reported as 400 \<open>OTP expired\<close>, in both versions of the handler. When
  \<open>CreatedAt\<close> is a decimal integer outside the \<open>int64\<close> range (\<open>ErrRange\<close>), the value
  is not 0 but the nearest bound, \<open>2^63 - 1\<close> or \<open>-2^63\<close>.
\<close>

theorem verifyOTP_CreatedAt_error_dropped:
  assumes "Unmarshal_OTPVerifyRequest e (APIGatewayProxyRequest.Body request) = Inr verifyReq"
      and "NewSession_err e = None" and "Query_err e = None"
      and "lookupLatest (table w) (Identifier verifyReq) = Some it"
      and "deref_S it ''OTP'' = Some storedOTP" and "deref_N it ''CreatedAt'' = Some created"
  shows "returned (fst (verifyOTP e w request)) \<in>
           {Some (400, ''OTP expired''), Some (400, ''Invalid OTP''),
            Some (200, ''OTP verified successfully'')}
       \<and> (snd (ParseInt created) = Some ErrSyntax \<longrightarrow>
            fst (ParseInt created) = 0
            \<and> (300 < sint (Now_Unix e) \<longrightarrow>
                 returned (fst (verifyOTP e w request)) = Some (400, ''OTP expired'')
                 \<and> returned (fst (verifyOTP_part_000 e w request)) = Some (400, ''OTP expired'')))
       \<and> (snd (ParseInt created) = Some ErrRange \<longrightarrow>
            fst (ParseInt created) = 2 ^ 63 - 1 \<or> fst (ParseInt created) = - (2 ^ 63))"
  using verifyOTP_found[OF assms] verifyOTP_part_000_found[OF assms]
    ParseInt_syntax_zero[of created] ParseInt_range_value[of created]
  by auto

theorem verifyOTP_CreatedAt_error_dropped_witness:
  "Unmarshal_OTPVerifyRequest (example_env\<lparr>Now_Unix := 1700000000, Query_err := None\<rparr>)
     (APIGatewayProxyRequest.Body (verify_request example_body_otp_000007)) =
     Inr \<lparr>Identifier = ''+15551234567'', OTP = ''000007''\<rparr>
   \<and> lookupLatest [example_record ''+15551234567'' ''1.5'' ''000007''] ''+15551234567'' =
       Some (example_record ''+15551234567'' ''1.5'' ''000007'')
   \<and> snd (ParseInt ''1.5'') = Some ErrSyntax
   \<and> 300 < sint (Now_Unix (example_env\<lparr>Now_Unix := 1700000000, Query_err := None\<rparr>))
   \<and> returned (fst (verifyOTP (example_env\<lparr>Now_Unix := 1700000000, Query_err := None\<rparr>)
         \<lparr>table = [example_record ''+15551234567'' ''1.5'' ''000007''], calls = []\<rparr>
         (verify_request example_body_otp_000007))) = Some (400, ''OTP expired'')
   \<and> returned (fst (verifyOTP_part_000 (example_env\<lparr>Now_Unix := 1700000000, Query_err := None\<rparr>)
         \<lparr>table = [example_record ''+15551234567'' ''1.5'' ''000007''], calls = []\<rparr>
         (verify_request example_body_otp_000007))) = Some (400, ''OTP expired'')"
proof -
  let ?r = "example_record ''+15551234567'' ''1.5'' ''000007''"
  let ?w = "\<lparr>table = [?r], calls = []\<rparr>"
  let ?e = "example_env\<lparr>Now_Unix := 1700000000, Query_err := None\<rparr>"
  have u: "Unmarshal_OTPVerifyRequest ?e
      (APIGatewayProxyRequest.Body (verify_request example_body_otp_000007)) =
      Inr \<lparr>Identifier = ''+15551234567'', OTP = ''000007''\<rparr>"
    by (rule example_verify_bodies(1))
  have s: "NewSession_err ?e = None" by (rule example_env_simps(1))
  have q: "Query_err ?e = None" by (rule example_env_simps(2))
  have l: "lookupLatest (table ?w) (Identifier \<lparr>Identifier = ''+15551234567'', OTP = ''000007''\<rparr>)
             = Some ?r"
    by (simp add: example_record_simps)
  have syn: "snd (ParseInt ''1.5'') = Some ErrSyntax" by (simp add: ParseInt_examples)
  have now: "300 < sint (Now_Unix ?e)" by (simp add: example_env_simps)
  note t = verifyOTP_CreatedAt_error_dropped[OF u s q l example_record_simps(2,3)]
  from t syn now have
    "returned (fst (verifyOTP ?e ?w (verify_request example_body_otp_000007))) =
       Some (400, ''OTP expired'')"
    "returned (fst (verifyOTP_part_000 ?e ?w (verify_request example_body_otp_000007))) =
       Some (400, ''OTP expired'')"
    by blast+
  moreover from l have "lookupLatest [?r] ''+15551234567'' = Some ?r" by simp
  ultimately show ?thesis using u syn now by blast
qed

text \<open>
  C10 as stated does not hold for a \<open>CreatedAt\<close> that is a number beyond \<open>int64\<close>:
  \<open>9223372036854775808\<close> does not parse, the value taken is \<open>2^63 - 1\<close> and not 0,
  and at the Unix time 1700000000 the record is not reported as expired: the matching
  OTP is verified.
\<close>

theorem verifyOTP_CreatedAt_out_of_range_counterexample:
  "snd (ParseInt ''9223372036854775808'') = Some ErrRange
   \<and> fst (ParseInt ''9223372036854775808'') \<noteq> 0
   \<and> 300 < sint (Now_Unix (example_env\<lparr>Now_Unix := 1700000000, Query_err := None\<rparr>))
   \<and> returned (fst (verifyOTP (example_env\<lparr>Now_Unix := 1700000000, Query_err := None\<rparr>)
         \<lparr>table = [example_record ''+15551234567'' ''9223372036854775808'' ''000007''], calls = []\<rparr>
         (verify_request example_body_otp_000007))) = Some (200, ''OTP verified successfully'')
   \<and> returned (fst (verifyOTP (example_env\<lparr>Now_Unix := 1700000000, Query_err := None\<rparr>)
         \<lparr>table = [example_record ''+15551234567'' ''9223372036854775808'' ''000007''], calls = []\<rparr>
         (verify_request example_body_otp_000007))) \<noteq> Some (400, ''OTP expired'')"
proof -
  let ?r = "example_record ''+15551234567'' ''9223372036854775808'' ''000007''"
  let ?w = "\<lparr>table = [?r], calls = []\<rparr>"
  let ?e = "example_env\<lparr>Now_Unix := 1700000000, Query_err := None\<rparr>"
  have u: "Unmarshal_OTPVerifyRequest ?e
      (APIGatewayProxyRequest.Body (verify_request example_body_otp_000007)) =
      Inr \<lparr>Identifier = ''+15551234567'', OTP = ''000007''\<rparr>"
    by (rule example_verify_bodies(1))
  have s: "NewSession_err ?e = None" by (rule example_env_simps(1))
  have q: "Query_err ?e = None" by (rule example_env_simps(2))
  have l: "lookupLatest (table ?w) (Identifier \<lparr>Identifier = ''+15551234567'', OTP = ''000007''\<rparr>)
             = Some ?r"
    by (simp add: example_record_simps)
  have p: "ParseInt ''9223372036854775808'' = (2 ^ 63 - 1, Some ErrRange)"
    by (rule ParseInt_examples(2))
  have now: "300 < sint (Now_Unix ?e)" by (simp add: example_env_simps)
  have "fst (verifyOTP ?e ?w (verify_request example_body_otp_000007)) =
          Return (createResponse 200 ''OTP verified successfully'', None)"
    using verifyOTP_found[OF u s q l example_record_simps(2,3)]
    by (simp add: example_env_simps p)
  then have "returned (fst (verifyOTP ?e ?w (verify_request example_body_otp_000007))) =
          Some (200, ''OTP verified successfully'')"
    by simp
  with now show ?thesis by (simp add: p)
qed

section \<open>Several records of one identifier\<close>

lemma sendOTP_table:
  assumes "Unmarshal_OTPRequest e (APIGatewayProxyRequest.Body request) = Inr otpReq"
      and "NewSession_err e = None" and "PutItem_err e = None"
  shows "table (snd (sendOTP e w request)) =
           table w @ [otp_item (OTPRequest.Identifier otpReq) (Now_Unix e)
                        (Sprintf_06d (Intn e 1000000))]"
proof -
  consider "Method otpReq = ''sms''" | "Method otpReq = ''email''"
    | "Method otpReq \<noteq> ''sms''" "Method otpReq \<noteq> ''email''" by blast
  then show ?thesis
  proof cases
    case 1
    with assms show ?thesis by (simp add: sendOTP_sms)
  next
    case 2
    with assms show ?thesis by (simp add: sendOTP_email)
  next
    case 3
    with assms show ?thesis by (simp add: sendOTP_invalid_method)
  qed
qed

lemma generateOTP_fst: "fst (generateOTP e w) = Sprintf_06d (Intn e 1000000)"
  by (simp add: generateOTP_def)

lemma lookupLatest_newest_otp_item:
  assumes mem: "otp_item ident t2 otp2 \<in> set tbl"
      and older: "\<forall>r \<in> set tbl. item_matches ident r \<and> r \<noteq> otp_item ident t2 otp2 \<longrightarrow>
                    (\<exists>t1. sortKey r = Some t1 \<and> t1 < sint t2)"
  shows "lookupLatest tbl ident = Some (otp_item ident t2 otp2)"
proof (rule lookupLatest_newest[OF mem])
  show "item_matches ident (otp_item ident t2 otp2)" by (simp add: item_matches_otp_item)
  show "\<forall>it\<in>set tbl. item_matches ident it \<and> it \<noteq> otp_item ident t2 otp2 \<longrightarrow>
          \<not> key_le (sortKey (otp_item ident t2 otp2)) (sortKey it)"
  proof (intro ballI impI)
    fix it assume "it \<in> set tbl" "item_matches ident it \<and> it \<noteq> otp_item ident t2 otp2"
    with older obtain t1 where "sortKey it = Some t1" "t1 < sint t2" by blast
    then show "\<not> key_le (sortKey (otp_item ident t2 otp2)) (sortKey it)"
      by (simp add: sortKey_otp_item)
  qed
qed

text \<open>
  C3. When the table holds a record of the identifier written at \<open>t2\<close> and every other
  record of that identifier was created at some \<open>t1 < t2\<close>, the query returns the
  \<open>t2\<close> record and Verify answers exactly as it would if that record were the only one
  in the table: expired, or compared with the OTP of the \<open>t2\<close> record. A submitted OTP
  that differs from the OTP of the \<open>t2\<close> record, such as one that matches only an older
  record, is rejected.
\<close>

theorem verifyOTP_checks_newest_only:
  assumes "Unmarshal_OTPVerifyRequest e (APIGatewayProxyRequest.Body request) = Inr verifyReq"
      and "NewSession_err e = None" and "Query_err e = None"
      and "otp_item (Identifier verifyReq) t2 otp2 \<in> set (table w)"
      and "\<forall>r \<in> set (table w).
             item_matches (Identifier verifyReq) r \<and> r \<noteq> otp_item (Identifier verifyReq) t2 otp2
             \<longrightarrow> (\<exists>t1. sortKey r = Some t1 \<and> t1 < sint t2)"
  shows "lookupLatest (table w) (Identifier verifyReq) = Some (otp_item (Identifier verifyReq) t2 otp2)
       \<and> fst (verifyOTP e w request) =
           fst (verifyOTP e (w\<lparr>table := [otp_item (Identifier verifyReq) t2 otp2]\<rparr>) request)
       \<and> returned (fst (verifyOTP e w request)) =
           Some (if 300 < sint (Now_Unix e - t2) then (400, ''OTP expired'')
                 else if OTP verifyReq \<noteq> otp2 then (400, ''Invalid OTP'')
                 else (200, ''OTP verified successfully''))
       \<and> (OTP verifyReq \<noteq> otp2 \<longrightarrow>
            returned (fst (verifyOTP e w request)) \<in>
              {Some (400, ''OTP expired''), Some (400, ''Invalid OTP'')})"
proof -
  let ?r2 = "otp_item (Identifier verifyReq) t2 otp2"
  have l: "lookupLatest (table w) (Identifier verifyReq) = Some ?r2"
    using assms(4,5) by (rule lookupLatest_newest_otp_item)
  have l1: "lookupLatest (table (w\<lparr>table := [?r2]\<rparr>)) (Identifier verifyReq) = Some ?r2"
    by (simp add: item_matches_otp_item)
  note f = verifyOTP_found[OF assms(1-3) l deref_otp_item]
  note f1 = verifyOTP_found[OF assms(1-3) l1 deref_otp_item]
  from f f1 have same: "fst (verifyOTP e w request) = fst (verifyOTP e (w\<lparr>table := [?r2]\<rparr>) request)"
    by simp
  from f have r: "returned (fst (verifyOTP e w request)) =
           Some (if 300 < sint (Now_Unix e - t2) then (400, ''OTP expired'')
                 else if OTP verifyReq \<noteq> otp2 then (400, ''Invalid OTP'')
                 else (200, ''OTP verified successfully''))"
    by (simp add: ParseInt_FormatInt)
  from l same r show ?thesis by simp
qed

theorem verifyOTP_checks_newest_only_witness:
  "Unmarshal_OTPVerifyRequest (example_env\<lparr>Now_Unix := 1700000100, Query_err := None\<rparr>)
     (APIGatewayProxyRequest.Body (verify_request example_body_otp_123456)) =
     Inr \<lparr>Identifier = ''+15551234567'', OTP = ''123456''\<rparr>
   \<and> sortKey (otp_item ''+15551234567'' 1700000000 ''123456'') = Some 1700000000
   \<and> (1700000000 :: int) < sint (1700000050 :: 64 word)
   \<and> lookupLatest [otp_item ''+15551234567'' 1700000000 ''123456'',
                    otp_item ''+15551234567'' 1700000050 ''000007''] ''+15551234567'' =
       Some (otp_item ''+15551234567'' 1700000050 ''000007'')
   \<and> returned (fst (verifyOTP (example_env\<lparr>Now_Unix := 1700000100, Query_err := None\<rparr>)
         \<lparr>table = [otp_item ''+15551234567'' 1700000000 ''123456'',
                    otp_item ''+15551234567'' 1700000050 ''000007''], calls = []\<rparr>
         (verify_request example_body_otp_123456))) = Some (400, ''Invalid OTP'')"
proof -
  let ?r1 = "otp_item ''+15551234567'' 1700000000 ''123456''"
  let ?r2 = "otp_item ''+15551234567'' 1700000050 ''000007''"
  let ?w = "\<lparr>table = [?r1, ?r2], calls = []\<rparr>"
  let ?e = "example_env\<lparr>Now_Unix := 1700000100, Query_err := None\<rparr>"
  let ?v = "\<lparr>Identifier = ''+15551234567'', OTP = ''123456''\<rparr>"
  have u: "Unmarshal_OTPVerifyRequest ?e
      (APIGatewayProxyRequest.Body (verify_request example_body_otp_123456)) = Inr ?v"
    by (rule example_verify_bodies(2))
  have s: "NewSession_err ?e = None" by (rule example_env_simps(1))
  have q: "Query_err ?e = None" by (rule example_env_simps(2))
  have k: "sortKey ?r1 = Some 1700000000" by (simp add: sortKey_otp_item)
  have lt: "(1700000000 :: int) < sint (1700000050 :: 64 word)" by simp
  have m: "otp_item (Identifier ?v) 1700000050 ''000007'' \<in> set (table ?w)" by simp
  have o: "\<forall>r \<in> set (table ?w).
             item_matches (Identifier ?v) r \<and> r \<noteq> otp_item (Identifier ?v) 1700000050 ''000007''
             \<longrightarrow> (\<exists>t1. sortKey r = Some t1 \<and> t1 < sint (1700000050 :: 64 word))"
    using k by simp
  note t = verifyOTP_checks_newest_only[OF u s q m o]
  have sel: "table ?w = [?r1, ?r2]" "Identifier ?v = ''+15551234567''" by simp_all
  from t have "lookupLatest (table ?w) (Identifier ?v) = Some (otp_item (Identifier ?v) 1700000050 ''000007'')"
    by (rule conjunct1)
  then have a: "lookupLatest [?r1, ?r2] ''+15551234567'' = Some ?r2" unfolding sel .
  from t have
    "returned (fst (verifyOTP ?e ?w (verify_request example_body_otp_123456))) =
       Some (if 300 < sint (Now_Unix ?e - 1700000050) then (400, ''OTP expired'')
             else if OTP ?v \<noteq> ''000007'' then (400, ''Invalid OTP'')
             else (200, ''OTP verified successfully''))"
    by blast
  then have b:
    "returned (fst (verifyOTP ?e ?w (verify_request example_body_otp_123456))) =
       Some (400, ''Invalid OTP'')"
    by (simp add: example_env_simps)
  from a b u k lt show ?thesis by blast
qed

section \<open>An earlier OTP after a later Send\<close>

lemma digit_char_simps:
  "digit_char 0 = CHR ''0''" "digit_char (Suc 0) = CHR ''1''" "digit_char 2 = CHR ''2''"
  "digit_char 3 = CHR ''3''" "digit_char 4 = CHR ''4''" "digit_char 5 = CHR ''5''"
  "digit_char 6 = CHR ''6''" "digit_char 7 = CHR ''7''" "digit_char 8 = CHR ''8''"
  "digit_char 9 = CHR ''9''"
  by code_simp+

lemma Sprintf_06d_123456: "Sprintf_06d 123456 = ''123456''"
  by (simp add: Sprintf_06d_def digits10.simps digit_char_simps)

lemma example_send_envs:
  "Unmarshal_OTPRequest example_first_send_env
     (APIGatewayProxyRequest.Body (send_request example_body_sms)) =
     Inr \<lparr>OTPRequest.Identifier = ''+15551234567'', Method = ''sms''\<rparr>"
  "Unmarshal_OTPRequest example_second_send_env
     (APIGatewayProxyRequest.Body (send_request example_body_sms)) =
     Inr \<lparr>OTPRequest.Identifier = ''+15551234567'', Method = ''sms''\<rparr>"
  "NewSession_err example_first_send_env = None" "NewSession_err example_second_send_env = None"
  "PutItem_err example_first_send_env = None" "PutItem_err example_second_send_env = None"
  "Publish_err example_first_send_env = None" "Publish_err example_second_send_env = None"
  "Now_Unix example_first_send_env = 1700000000" "Now_Unix example_second_send_env = 1700000050"
  "Intn example_first_send_env 1000000 = 123456" "Intn example_second_send_env 1000000 = 7"
  by (simp_all add: example_first_send_env_def example_second_send_env_def example_env_def
        example_Unmarshal_OTPRequest_def send_request_def example_body_sms_def)

lemma example_tables:
  "table example_world_after_one_send = [otp_item ''+15551234567'' 1700000000 ''123456'']"
  "table example_world_after_two_sends =
     [otp_item ''+15551234567'' 1700000000 ''123456'',
      otp_item ''+15551234567'' 1700000050 ''000007'']"
proof -
  show 1: "table example_world_after_one_send = [otp_item ''+15551234567'' 1700000000 ''123456'']"
    unfolding example_world_after_one_send_def
    using sendOTP_table[OF example_send_envs(1,3,5), of empty_world]
    by (simp add: example_send_envs Sprintf_06d_123456 empty_world_def)
  show "table example_world_after_two_sends =
     [otp_item ''+15551234567'' 1700000000 ''123456'',
      otp_item ''+15551234567'' 1700000050 ''000007'']"
    unfolding example_world_after_two_sends_def
    using sendOTP_table[OF example_send_envs(2,4,6), of example_world_after_one_send]
    by (simp add: example_send_envs Sprintf_06d_7 1)
qed

lemma example_sends_succeed:
  "returned (fst (sendOTP example_first_send_env empty_world (send_request example_body_sms))) =
     Some (200, ''OTP sent successfully'')"
  "returned (fst (sendOTP example_second_send_env example_world_after_one_send
                    (send_request example_body_sms))) =
     Some (200, ''OTP sent successfully'')"
  using example_send_envs(1) example_send_envs(2)
  by (simp_all add: sendOTP_sms example_send_envs)

text \<open>
  C4 as stated does not hold: after a Send at 1700000000 that issued \<open>123456\<close> and a
  Send for the same number at 1700000050 that issued \<open>000007\<close>, a Verify at 1700000100
  that submits \<open>123456\<close>, 100 seconds into that OTP's own window, is answered 400
  \<open>Invalid OTP\<close>.
\<close>

theorem earlier_OTP_after_later_Send_counterexample:
  "returned (fst (sendOTP example_first_send_env empty_world (send_request example_body_sms))) =
     Some (200, ''OTP sent successfully'')
   \<and> fst (generateOTP example_first_send_env empty_world) = ''123456''
   \<and> returned (fst (sendOTP example_second_send_env example_world_after_one_send
                      (send_request example_body_sms))) =
     Some (200, ''OTP sent successfully'')
   \<and> sint ((1700000100 :: 64 word) - Now_Unix example_first_send_env) \<le> 300
   \<and> Unmarshal_OTPVerifyRequest (example_env\<lparr>Now_Unix := 1700000100, Query_err := None\<rparr>)
       (APIGatewayProxyRequest.Body (verify_request example_body_otp_123456)) =
       Inr \<lparr>Identifier = ''+15551234567'', OTP = ''123456''\<rparr>
   \<and> returned (fst (verifyOTP (example_env\<lparr>Now_Unix := 1700000100, Query_err := None\<rparr>)
                      example_world_after_two_sends (verify_request example_body_otp_123456))) =
     Some (400, ''Invalid OTP'')"
proof -
  let ?e = "example_env\<lparr>Now_Unix := 1700000100, Query_err := None\<rparr>"
  let ?v = "\<lparr>Identifier = ''+15551234567'', OTP = ''123456''\<rparr>"
  have u: "Unmarshal_OTPVerifyRequest ?e
      (APIGatewayProxyRequest.Body (verify_request example_body_otp_123456)) = Inr ?v"
    by (rule example_verify_bodies(2))
  have s: "NewSession_err ?e = None" by (rule example_env_simps(1))
  have q: "Query_err ?e = None" by (rule example_env_simps(2))
  have l: "lookupLatest (table example_world_after_two_sends) (Identifier ?v) =
             Some (otp_item ''+15551234567'' 1700000050 ''000007'')"
    by (simp add: example_tables item_matches_otp_item sortKey_otp_item)
  have v: "returned (fst (verifyOTP ?e example_world_after_two_sends
                            (verify_request example_body_otp_123456))) =
             Some (400, ''Invalid OTP'')"
    using verifyOTP_found[OF u s q l deref_otp_item]
    by (simp add: example_env_simps ParseInt_FormatInt)
  have g: "fst (generateOTP example_first_send_env empty_world) = ''123456''"
    by (simp add: generateOTP_fst example_send_envs Sprintf_06d_123456)
  have w: "sint ((1700000100 :: 64 word) - Now_Unix example_first_send_env) \<le> 300"
    by (simp add: example_send_envs)
  from example_sends_succeed g w u v show ?thesis by blast
qed

text \<open>
  C4, as the code has it. Each Send with a well-formed body whose write the store
  accepts adds one record to the table and leaves the earlier records where they are.
  After a first Send at \<open>t1\<close> and a second Send for the same identifier at a later
  \<open>t2\<close> (all older records of the identifier lying before \<open>t2\<close>), the table is the old
  table followed by the two new records, and Verify looks at the \<open>t2\<close> record only: a
  Verify that submits the OTP of the first Send is answered 400 \<open>OTP expired\<close> when the
  second record is older than 300 seconds, otherwise 400 \<open>Invalid OTP\<close> unless the two
  OTPs happen to be the same string, in which case it is answered 200.
\<close>

theorem earlier_OTP_after_later_Send:
  assumes "Unmarshal_OTPRequest e1 (APIGatewayProxyRequest.Body request) = Inr otpReq"
      and "NewSession_err e1 = None" and "PutItem_err e1 = None"
      and "Unmarshal_OTPRequest e2 (APIGatewayProxyRequest.Body request) = Inr otpReq"
      and "NewSession_err e2 = None" and "PutItem_err e2 = None"
      and "sint (Now_Unix e1) < sint (Now_Unix e2)"
      and "\<forall>r \<in> set (table w). item_matches (OTPRequest.Identifier otpReq) r \<longrightarrow>
             (\<exists>t. sortKey r = Some t \<and> t < sint (Now_Unix e2))"
      and "Unmarshal_OTPVerifyRequest e3 (APIGatewayProxyRequest.Body vrequest) = Inr verifyReq"
      and "NewSession_err e3 = None" and "Query_err e3 = None"
      and "Identifier verifyReq = OTPRequest.Identifier otpReq"
      and "OTP verifyReq = fst (generateOTP e1 w)"
  shows "table (snd (sendOTP e2 (snd (sendOTP e1 w request)) request)) =
           table w @
           [otp_item (OTPRequest.Identifier otpReq) (Now_Unix e1) (fst (generateOTP e1 w)),
            otp_item (OTPRequest.Identifier otpReq) (Now_Unix e2)
              (fst (generateOTP e2 (snd (sendOTP e1 w request))))]
       \<and> returned (fst (verifyOTP e3 (snd (sendOTP e2 (snd (sendOTP e1 w request)) request)) vrequest)) =
           Some (if 300 < sint (Now_Unix e3 - Now_Unix e2) then (400, ''OTP expired'')
                 else if fst (generateOTP e1 w) \<noteq> fst (generateOTP e2 (snd (sendOTP e1 w request)))
                   then (400, ''Invalid OTP'')
                 else (200, ''OTP verified successfully''))"
proof -
  let ?id = "OTPRequest.Identifier otpReq"
  let ?w1 = "snd (sendOTP e1 w request)"
  let ?w2 = "snd (sendOTP e2 ?w1 request)"
  let ?r1 = "otp_item ?id (Now_Unix e1) (fst (generateOTP e1 w))"
  let ?r2 = "otp_item ?id (Now_Unix e2) (fst (generateOTP e2 ?w1))"
  have t1: "table ?w1 = table w @ [?r1]"
    using sendOTP_table[OF assms(1-3), of w] by (simp add: generateOTP_fst)
  have t2: "table ?w2 = table w @ [?r1, ?r2]"
    using sendOTP_table[OF assms(4-6), of ?w1] by (simp add: generateOTP_fst t1)
  have mem: "otp_item (Identifier verifyReq) (Now_Unix e2) (fst (generateOTP e2 ?w1)) \<in> set (table ?w2)"
    by (simp add: t2 assms(12))
  have older: "\<forall>r \<in> set (table ?w2).
      item_matches (Identifier verifyReq) r
        \<and> r \<noteq> otp_item (Identifier verifyReq) (Now_Unix e2) (fst (generateOTP e2 ?w1))
      \<longrightarrow> (\<exists>t. sortKey r = Some t \<and> t < sint (Now_Unix e2))"
    using assms(7,8) by (auto simp: t2 assms(12) sortKey_otp_item)
  have l: "lookupLatest (table ?w2) (Identifier verifyReq) =
             Some (otp_item (Identifier verifyReq) (Now_Unix e2) (fst (generateOTP e2 ?w1)))"
    using mem older by (rule lookupLatest_newest_otp_item)
  have "returned (fst (verifyOTP e3 ?w2 vrequest)) =
           Some (if 300 < sint (Now_Unix e3 - Now_Unix e2) then (400, ''OTP expired'')
                 else if fst (generateOTP e1 w) \<noteq> fst (generateOTP e2 ?w1)
                   then (400, ''Invalid OTP'')
                 else (200, ''OTP verified successfully''))"
    using verifyOTP_found[OF assms(9-11) l deref_otp_item]
    by (simp add: ParseInt_FormatInt assms(13))
  with t2 show ?thesis by simp
qed


theorem earlier_OTP_after_later_Send_witness:
  "Unmarshal_OTPRequest example_first_send_env
     (APIGatewayProxyRequest.Body (send_request example_body_sms)) =
     Inr \<lparr>OTPRequest.Identifier = ''+15551234567'', Method = ''sms''\<rparr>
   \<and> Unmarshal_OTPRequest example_second_send_env
     (APIGatewayProxyRequest.Body (send_request example_body_sms)) =
     Inr \<lparr>OTPRequest.Identifier = ''+15551234567'', Method = ''sms''\<rparr>
   \<and> sint (Now_Unix example_first_send_env) < sint (Now_Unix example_second_send_env)
   \<and> Unmarshal_OTPVerifyRequest (example_env\<lparr>Now_Unix := 1700000100, Query_err := None\<rparr>)
       (APIGatewayProxyRequest.Body (verify_request example_body_otp_123456)) =
       Inr \<lparr>Identifier = ''+15551234567'', OTP = ''123456''\<rparr>
   \<and> ''123456'' = fst (generateOTP example_first_send_env empty_world)
   \<and> table (snd (sendOTP example_second_send_env
                   (snd (sendOTP example_first_send_env empty_world (send_request example_body_sms)))
                   (send_request example_body_sms))) =
       [otp_item ''+15551234567'' 1700000000 ''123456'',
        otp_item ''+15551234567'' 1700000050 ''000007'']
   \<and> returned (fst (verifyOTP (example_env\<lparr>Now_Unix := 1700000100, Query_err := None\<rparr>)
         (snd (sendOTP example_second_send_env
                 (snd (sendOTP example_first_send_env empty_world (send_request example_body_sms)))
                 (send_request example_body_sms)))
         (verify_request example_body_otp_123456))) = Some (400, ''Invalid OTP'')"
proof -
  let ?e3 = "example_env\<lparr>Now_Unix := 1700000100, Query_err := None\<rparr>"
  let ?o = "\<lparr>OTPRequest.Identifier = ''+15551234567'', Method = ''sms''\<rparr>"
  let ?v = "\<lparr>Identifier = ''+15551234567'', OTP = ''123456''\<rparr>"
  let ?w1 = "snd (sendOTP example_first_send_env empty_world (send_request example_body_sms))"
  have u: "Unmarshal_OTPVerifyRequest ?e3
      (APIGatewayProxyRequest.Body (verify_request example_body_otp_123456)) = Inr ?v"
    by (rule example_verify_bodies(2))
  have s: "NewSession_err ?e3 = None" by (rule example_env_simps(1))
  have q: "Query_err ?e3 = None" by (rule example_env_simps(2))
  have later: "sint (Now_Unix example_first_send_env) < sint (Now_Unix example_second_send_env)"
    by (simp add: example_send_envs)
  have none: "\<forall>r \<in> set (table empty_world). item_matches (OTPRequest.Identifier ?o) r \<longrightarrow>
             (\<exists>t. sortKey r = Some t \<and> t < sint (Now_Unix example_second_send_env))"
    by (simp add: empty_world_def)
  have same: "Identifier ?v = OTPRequest.Identifier ?o" by simp
  have g1: "fst (generateOTP example_first_send_env empty_world) = ''123456''"
    by (simp add: generateOTP_fst example_send_envs Sprintf_06d_123456)
  have g2: "fst (generateOTP example_second_send_env ?w1) = ''000007''"
    by (simp add: generateOTP_fst example_send_envs Sprintf_06d_7)
  have sub: "OTP ?v = fst (generateOTP example_first_send_env empty_world)"
    by (simp add: g1)
  have t0: "table empty_world = []" by (simp add: empty_world_def)
  note t = earlier_OTP_after_later_Send[OF example_send_envs(1,3,5) example_send_envs(2,4,6)
             later none u s q same sub]
  from t have a: "table (snd (sendOTP example_second_send_env ?w1 (send_request example_body_sms))) =
       [otp_item ''+15551234567'' 1700000000 ''123456'',
        otp_item ''+15551234567'' 1700000050 ''000007'']"
    by (simp add: g1 g2 example_send_envs t0)
  from t have b: "returned (fst (verifyOTP ?e3
         (snd (sendOTP example_second_send_env ?w1 (send_request example_body_sms)))
         (verify_request example_body_otp_123456))) = Some (400, ''Invalid OTP'')"
    by (simp add: g1 g2 example_send_envs example_env_simps)
  from a b u later g1 example_send_envs(1,2) show ?thesis by simp
qed

end
